theory Spec2Isabelle
  imports Main
begin

section \<open>Python values used by the pipeline\<close>

text \<open>
  A Python \<open>str\<close> is a sequence of Unicode code points; the tender texts, the keywords
  and the model's answers are Cyrillic, so such a string is a list of code points.
  Identifiers, URLs and file names, which the code builds from ASCII literals, are
  \<open>string\<close>s.
\<close>

type_synonym ustr = "nat list"

text \<open>The exceptions the modelled code raises or catches.\<close>

datatype exn = NameError | TypeError | ValueError | RequestException

text \<open>\<open>sub in s\<close> on strings: \<open>sub\<close> occurs in \<open>s\<close> as a contiguous substring.\<close>

definition startswith :: "'a list \<Rightarrow> 'a list \<Rightarrow> bool" where
  "startswith s p = (take (length p) s = p)"

fun py_in :: "'a list \<Rightarrow> 'a list \<Rightarrow> bool" where
  "py_in sub [] = (sub = [])"
| "py_in sub (c # s) = (if startswith (c # s) sub then True else py_in sub s)"

text \<open>\<open>str.isspace\<close> of one code point (the code points Python 3 counts as whitespace).\<close>

definition isspace :: "nat \<Rightarrow> bool" where
  "isspace c = (c \<in> set [9, 10, 11, 12, 13, 28, 29, 30, 31, 32, 133, 160, 5760,
      8192, 8193, 8194, 8195, 8196, 8197, 8198, 8199, 8200, 8201, 8202,
      8232, 8233, 8239, 8287, 12288])"

text \<open>\<open>s.strip()\<close>: leading and trailing whitespace removed.\<close>

definition strip :: "ustr \<Rightarrow> ustr" where
  "strip s = rev (dropWhile isspace (rev (dropWhile isspace s)))"

text \<open>\<open>sep.join(parts)\<close>.\<close>

fun join :: "'a list \<Rightarrow> 'a list list \<Rightarrow> 'a list" where
  "join sep [] = []"
| "join sep [p] = p"
| "join sep (p # q # ps) = p @ sep @ join sep (q # ps)"

text \<open>
  \<open>xs[a:b]\<close> with Python's treatment of negative and out-of-range bounds
  (a negative bound counts from the end, every bound is clipped to the length).
\<close>

definition clip_index :: "int \<Rightarrow> int \<Rightarrow> int" where
  "clip_index n i = (if i < 0 then max 0 (n + i) else min i n)"

definition py_slice :: "'a list \<Rightarrow> int \<Rightarrow> int \<Rightarrow> 'a list" where
  "py_slice xs a b =
     (let n = int (length xs); lo = clip_index n a; hi = clip_index n b
      in take (nat (hi - lo)) (drop (nat lo) xs))"

text \<open>\<open>xs[:b]\<close>.\<close>

definition py_prefix :: "'a list \<Rightarrow> int \<Rightarrow> 'a list" where
  "py_prefix xs b = py_slice xs 0 b"

text \<open>
  \<open>range(0, stop, step)\<close>: a zero step raises ValueError, a negative step from 0 up to a
  non-negative stop is empty.
\<close>

definition py_range0 :: "int \<Rightarrow> int \<Rightarrow> exn + int list" where
  "py_range0 stop step =
     (if step = 0 then Inl ValueError
      else if step < 0 \<or> stop \<le> 0 then Inr []
      else Inr (map (\<lambda>k. int k * step) [0..<nat ((stop + step - 1) div step)]))"

text \<open>\<open>x or d\<close> for an optional integer argument: \<open>None\<close> and \<open>0\<close> are falsy.\<close>

definition or_default :: "int option \<Rightarrow> int \<Rightarrow> int" where
  "or_default x d = (case x of None \<Rightarrow> d | Some v \<Rightarrow> if v = 0 then d else v)"

text \<open>\<open>str(n)\<close> for a natural number: its decimal digits.\<close>

definition digit_char :: "nat \<Rightarrow> char" where
  "digit_char d = ''0123456789'' ! d"

fun digits_of :: "nat \<Rightarrow> nat \<Rightarrow> string" where
  "digits_of 0 n = []"
| "digits_of (Suc fuel) n =
     (if n < 10 then [digit_char n]
      else digits_of fuel (n div 10) @ [digit_char (n mod 10)])"

definition str_of_nat :: "nat \<Rightarrow> string" where
  "str_of_nat n = digits_of (Suc n) n"

subsection \<open>String constants of the source\<close>

text \<open>"da" (U+0434 U+0430), the affirmative answer.\<close>

definition DA :: ustr where
  "DA = [1076, 1072]"

text \<open>"net" (U+043D U+0435 U+0442), the negative answer.\<close>

definition NET :: ustr where
  "NET = [1085, 1077, 1090]"

text \<open>"vozmozhno" ("possible"), the stage-1 answer that lets a title through.\<close>

definition VOZMOZHNO :: ustr where
  "VOZMOZHNO = [1074, 1086, 1079, 1084, 1086, 1078, 1085, 1086]"

text \<open>"neizvestno" ("unknown").\<close>

definition NEIZVESTNO :: ustr where
  "NEIZVESTNO = [1085, 1077, 1080, 1079, 1074, 1077, 1089, 1090, 1085, 1086]"

text \<open>
  \<open>KEYWORDS\<close> of scorer.py, in the source's order: twelve lower-case Russian terms
  (electronic document workflow, system of electronic document workflow, electronic
  digital signature, document integrity, document authenticity, certification centre,
  registration-control card, document approval, document registration, internal
  documents, and the abbreviations U+044D U+0446 U+043F and U+0441 U+044D U+0434).
\<close>

definition KEYWORDS :: "ustr list" where
  "KEYWORDS =
   [[1101, 1083, 1077, 1082, 1090, 1088, 1086, 1085, 1085, 1099, 1081, 32, 1076, 1086,
     1082, 1091, 1084, 1077, 1085, 1090, 1086, 1086, 1073, 1086, 1088, 1086, 1090],
    [1089, 1080, 1089, 1090, 1077, 1084, 1072, 32, 1101, 1083, 1077, 1082, 1090, 1088,
     1086, 1085, 1085, 1086, 1075, 1086, 32, 1076, 1086, 1082, 1091, 1084, 1077, 1085,
     1090, 1086, 1086, 1073, 1086, 1088, 1086, 1090, 1072],
    [1101, 1083, 1077, 1082, 1090, 1088, 1086, 1085, 1085, 1072, 1103, 32, 1094, 1080,
     1092, 1088, 1086, 1074, 1072, 1103, 32, 1087, 1086, 1076, 1087, 1080, 1089, 1100],
    [1094, 1077, 1083, 1086, 1089, 1090, 1085, 1086, 1089, 1090, 1100, 32, 1076, 1086,
     1082, 1091, 1084, 1077, 1085, 1090, 1072],
    [1087, 1086, 1076, 1083, 1080, 1085, 1085, 1086, 1089, 1090, 1100, 32, 1076, 1086,
     1082, 1091, 1084, 1077, 1085, 1090, 1072],
    [1091, 1076, 1086, 1089, 1090, 1086, 1074, 1077, 1088, 1103, 1102, 1097, 1080, 1081,
     32, 1094, 1077, 1085, 1090, 1088],
    [1088, 1077, 1075, 1080, 1089, 1090, 1088, 1072, 1094, 1080, 1086, 1085, 1085, 1086,
     45, 1082, 1086, 1085, 1090, 1088, 1086, 1083, 1100, 1085, 1072, 1103, 32, 1082,
     1072, 1088, 1090, 1086, 1095, 1082, 1072],
    [1089, 1086, 1075, 1083, 1072, 1089, 1086, 1074, 1072, 1085, 1080, 1077, 32, 1076,
     1086, 1082, 1091, 1084, 1077, 1085, 1090, 1072],
    [1088, 1077, 1075, 1080, 1089, 1090, 1088, 1072, 1094, 1080, 1103, 32, 1076, 1086,
     1082, 1091, 1084, 1077, 1085, 1090, 1086, 1074],
    [1074, 1085, 1091, 1090, 1088, 1077, 1085, 1085, 1080, 1077, 32, 1076, 1086, 1082,
     1091, 1084, 1077, 1085, 1090, 1099],
    [1101, 1094, 1087],
    [1089, 1101, 1076]]"

text \<open>
  The two document-category names process_by_announcement_id looks for:
  "Tekhnicheskaya spetsifikatsiya" and "Tekhnicheskoe zadanie".
\<close>

definition TECH_SPEC :: ustr where
  "TECH_SPEC = [1058, 1077, 1093, 1085, 1080, 1095, 1077, 1089, 1082, 1072, 1103, 32,
     1089, 1087, 1077, 1094, 1080, 1092, 1080, 1082, 1072, 1094, 1080, 1103]"

definition TECH_TASK :: ustr where
  "TECH_TASK = [1058, 1077, 1093, 1085, 1080, 1095, 1077, 1089, 1082, 1086, 1077, 32,
     1079, 1072, 1076, 1072, 1085, 1080, 1077]"


section \<open>Data model\<close>

text \<open>
  The dictionary get_announcement_info builds (downloader.py); \<open>i_summary\<close> is the
  key \<open>summary\<close> that main.py adds on acceptance, absent until then.
\<close>

record info =
  i_announcement_id :: string
  i_name :: "ustr option"
  i_amount :: "ustr option"
  i_type :: "ustr option"
  i_status :: "ustr option"
  i_correspondent :: ustr
  i_correspondent_id :: "ustr option"
  i_started_at :: "string option"
  i_finished_at :: "string option"
  i_techspec_summary :: ustr
  i_link :: string
  i_summary :: "ustr option"

text \<open>\<open>ModelResponse\<close> of scorer.py, a dataclass (the confidence field is never set).\<close>

record ModelResponse =
  decision :: ustr
  summary :: ustr

text \<open>\<open>DownloadStats\<close> of downloader.py.\<close>

record DownloadStats =
  total_files :: nat
  downloaded_files :: nat
  skipped_files :: nat
  dl_errors :: nat

text \<open>The JSON body the Intake Submitter posts (uploader.py), by its variable parts.\<close>

record payload =
  p_bin :: ustr
  p_company :: ustr
  p_message :: ustr
  p_file :: ustr
  p_md5sum :: ustr
  p_analysis :: ustr

text \<open>
  A row of the document table of a detail page, as process_by_announcement_id reads it:
  the number of \<open>td\<close> cells, the text of the first cell, and the category id that the
  regular expression finds in the \<open>onclick\<close> of the third cell's button (\<open>None\<close>
  without a button or a match).
\<close>

record doc_row =
  n_columns :: nat
  doc_name :: ustr
  category :: "string option"

text \<open>
  A fetched page, by what the markup library (a black box) extracts from it: the rows of
  the document table, the \<open>href\<close>s of its links, and the dictionary
  get_announcement_info reads from it (\<open>None\<close> when reading it raises).
\<close>

record page =
  pg_rows :: "doc_row list"
  pg_hrefs :: "string list"
  pg_info :: "info option"

text \<open>The outcome of \<open>session.get\<close>: a transport-level exception, or a response.\<close>

datatype get_result = ConnError | Response nat page

text \<open>
  The outcome of the metadata probe (\<open>session.head\<close> followed by raise_for_status):
  an exception, or the Content-Disposition header of the response.
\<close>

datatype head_result = HeadError | HeadOk "string option"

text \<open>The four requests the scorer sends to the model, by the text they carry.\<close>

datatype model_call = Generate ustr | Summarize ustr | Classify ustr | Translate ustr

text \<open>Effects visible outside the process, in the order they happen.\<close>

datatype event =
    Model model_call
  | Sleep nat
  | Get string
  | Head string
  | Fetch string
  | Post payload
  | Mkdir string
  | Write string

text \<open>The three checkpoint files, each a JSON object keyed by announcement id.\<close>

datatype checkpoint =
    Filtered "string \<rightharpoonup> ustr"
  | Stage1 "string \<rightharpoonup> bool"
  | Stage2 "string \<rightharpoonup> info"

text \<open>
  The world outside the process: the trace of effects so far, the per-announcement
  folders under the data directory (the names of their files), and the checkpoint
  files under the data directory.
\<close>

record world =
  trace :: "event list"
  folders :: "string \<rightharpoonup> string list"
  disk :: "string \<rightharpoonup> checkpoint"

text \<open>
  Everything the code reads but does not decide: the configuration (config.py), the
  Unicode tables behind \<open>str.lower\<close> and \<open>str.isdigit\<close>, and the answers of the remote
  services, the file system and the document libraries, each a function of the trace so
  far, so that an answer may change from one attempt to the next.

  \<open>scorer_model_name\<close> is the global \<open>model_name\<close> as scorer.py sees it. scorer.py
  imports only \<open>config\<close> and \<open>configGS\<close> from config.py, so in the repository the name is
  unbound (\<open>None\<close>) and reading it raises NameError.
\<close>

record env =
  chunk_size :: int
  max_chunks :: int
  keyword_threshold :: int
  scraping_max_retries :: int
  scraping_retry_delay :: nat
  str_lower :: "ustr \<Rightarrow> ustr"
  char_isdigit :: "nat \<Rightarrow> bool"
  scorer_model_name :: "ustr option"
  model_reply :: "event list \<Rightarrow> model_call \<Rightarrow> ustr option"
  http_get :: "event list \<Rightarrow> string \<Rightarrow> get_result"
  http_head :: "event list \<Rightarrow> string \<Rightarrow> head_result"
  http_fetch :: "event list \<Rightarrow> string \<Rightarrow> bool"
  http_post :: "event list \<Rightarrow> payload \<Rightarrow> ustr option"
  write_ok :: "event list \<Rightarrow> string \<Rightarrow> bool"
  disposition_ext :: "string \<Rightarrow> string option"
  folder_text :: "string \<Rightarrow> string list \<Rightarrow> ustr option"
  first_file_base64 :: "string \<Rightarrow> string list \<Rightarrow> ustr option"
  first_file_md5 :: "string \<Rightarrow> string list \<Rightarrow> ustr option"
  tender_message :: "info \<Rightarrow> ustr"

definition emit :: "event \<Rightarrow> world \<Rightarrow> world" where
  "emit ev w = w\<lparr>trace := trace w @ [ev]\<rparr>"

text \<open>\<open>time.sleep(seconds)\<close>.\<close>

definition sleep :: "nat \<Rightarrow> world \<Rightarrow> world" where
  "sleep seconds w = emit (Sleep seconds) w"

section \<open>scorer.py\<close>

text \<open>
  One POST to the model endpoint. \<open>None\<close> stands for every way the request fails (a
  transport error, an error status, a body that is not the expected JSON); \<open>Some c\<close> is
  the text field of the answer.
\<close>

definition post_model :: "env \<Rightarrow> model_call \<Rightarrow> world \<Rightarrow> ustr option \<times> world" where
  "post_model e c w = (model_reply e (trace w) c, emit (Model c) w)"

text \<open>
  request_to_model: the stage-1 classification of a title. Every failure is caught and
  answered "neizvestno".
\<close>

definition request_to_model :: "env \<Rightarrow> ustr \<Rightarrow> world \<Rightarrow> ustr \<times> world" where
  "request_to_model e description w =
     (case post_model e (Generate description) w of
        (None, w') \<Rightarrow> (NEIZVESTNO, w')
      | (Some c, w') \<Rightarrow>
          (let raw_output = str_lower e (strip c)
           in if py_in VOZMOZHNO raw_output then (VOZMOZHNO, w')
              else if py_in NET raw_output then (NET, w')
              else (NEIZVESTNO, w')))"

text \<open>get_summary_from_model: one request; every failure is caught and answered \<open>""\<close>.\<close>

definition get_summary_from_model :: "env \<Rightarrow> ustr \<Rightarrow> world \<Rightarrow> ustr \<times> world" where
  "get_summary_from_model e text w =
     (case post_model e (Summarize text) w of
        (None, w') \<Rightarrow> ([], w')
      | (Some c, w') \<Rightarrow> (strip c, w'))"

text \<open>
  get_translate_of_summary: builds the request body, which reads the global
  \<open>model_name\<close>, then posts it; nothing is caught.
\<close>

definition get_translate_of_summary :: "env \<Rightarrow> ustr \<Rightarrow> world \<Rightarrow> (exn + ustr) \<times> world" where
  "get_translate_of_summary e text w =
     (case scorer_model_name e of
        None \<Rightarrow> (Inl NameError, w)
      | Some m \<Rightarrow>
          (case post_model e (Translate text) w of
             (None, w') \<Rightarrow> (Inl RequestException, w')
           | (Some c, w') \<Rightarrow> (Inr (strip c), w')))"

text \<open>final_request_to_model: the deep-analysis classification, built the same way.\<close>

definition final_request_to_model :: "env \<Rightarrow> ustr \<Rightarrow> world \<Rightarrow> (exn + ustr) \<times> world" where
  "final_request_to_model e text w =
     (case scorer_model_name e of
        None \<Rightarrow> (Inl NameError, w)
      | Some m \<Rightarrow>
          (case post_model e (Classify text) w of
             (None, w') \<Rightarrow> (Inl RequestException, w')
           | (Some c, w') \<Rightarrow> (Inr (str_lower e (strip c)), w')))"

text \<open>
  _retry_model_request: \<open>for attempt in range(max_retry)\<close>; a truthy result is returned,
  a falsy result or an exception is followed by \<open>sleep(delay)\<close> and the next attempt;
  after the last attempt the answer is "net".
\<close>

fun retry_attempts ::
  "(world \<Rightarrow> (exn + ustr) \<times> world) \<Rightarrow> nat \<Rightarrow> nat list \<Rightarrow> world \<Rightarrow> ustr \<times> world" where
  "retry_attempts func delay [] w = (NET, w)"
| "retry_attempts func delay (attempt # rest) w =
     (case func w of
        (Inr result, w') \<Rightarrow>
          if result \<noteq> [] then (result, w')
          else retry_attempts func delay rest (sleep delay w')
      | (Inl ex, w') \<Rightarrow> retry_attempts func delay rest (sleep delay w'))"

definition retry_model_request ::
  "(world \<Rightarrow> (exn + ustr) \<times> world) \<Rightarrow> nat \<Rightarrow> nat \<Rightarrow> world \<Rightarrow> ustr \<times> world" where
  "retry_model_request func max_retry delay w =
     retry_attempts func delay [0..<max_retry] w"

text \<open>The defaults \<open>max_retry=3, delay=5\<close>, which every call site uses.\<close>

definition retry_default :: "(world \<Rightarrow> (exn + ustr) \<times> world) \<Rightarrow> world \<Rightarrow> ustr \<times> world" where
  "retry_default func w = retry_model_request func 3 5 w"

text \<open>A call that cannot raise, as the retry wrapper sees it.\<close>

definition returning :: "(world \<Rightarrow> ustr \<times> world) \<Rightarrow> world \<Rightarrow> (exn + ustr) \<times> world" where
  "returning f w = (case f w of (r, w') \<Rightarrow> (Inr r, w'))"

definition normalize_decision :: "env \<Rightarrow> ustr \<Rightarrow> ustr" where
  "normalize_decision e response =
     (if startswith (str_lower e (strip response)) DA then DA else NET)"

text \<open>
  _has_enough_keywords: the number of keywords that occur in the text, both lower-cased,
  against \<open>threshold or config.document.keyword_threshold\<close>.
\<close>

definition keyword_count :: "env \<Rightarrow> ustr \<Rightarrow> nat" where
  "keyword_count e text =
     length (filter (\<lambda>keyword. py_in (str_lower e keyword) (str_lower e text)) KEYWORDS)"

definition has_enough_keywords :: "env \<Rightarrow> ustr \<Rightarrow> int option \<Rightarrow> bool" where
  "has_enough_keywords e text threshold =
     (or_default threshold (keyword_threshold e) \<le> int (keyword_count e text))"

text \<open>
  _process_short_text: the summary is requested once, directly; the classification goes
  through the retry wrapper.
\<close>

definition process_short_text :: "env \<Rightarrow> ustr \<Rightarrow> world \<Rightarrow> (ustr \<times> ustr) \<times> world" where
  "process_short_text e text w =
     (case get_summary_from_model e text w of
        (summ, w1) \<Rightarrow>
          (case retry_default (final_request_to_model e text) w1 of
             (dec, w2) \<Rightarrow> ((summ, normalize_decision e dec), w2)))"

text \<open>
  The loop of _process_long_text over \<open>enumerate(range(0, len(text), chunk_size))\<close>: it
  stops at the first index that reaches \<open>max_chunks\<close>, and otherwise summarizes the slice
  \<open>text[start:start + chunk_size]\<close> through the retry wrapper.
\<close>

fun summarize_chunks ::
  "env \<Rightarrow> ustr \<Rightarrow> int \<Rightarrow> int \<Rightarrow> (nat \<times> int) list \<Rightarrow> world \<Rightarrow> ustr list \<times> world" where
  "summarize_chunks e text cs mc [] w = ([], w)"
| "summarize_chunks e text cs mc ((i, start) # rest) w =
     (if mc \<le> int i then ([], w)
      else
        (case retry_default
                (returning (get_summary_from_model e (py_slice text start (start + cs)))) w of
           (summ, w1) \<Rightarrow>
             (case summarize_chunks e text cs mc rest w1 of
                (summaries, w2) \<Rightarrow> (summ # summaries, w2))))"

definition process_long_text ::
  "env \<Rightarrow> ustr \<Rightarrow> int option \<Rightarrow> int option \<Rightarrow> world \<Rightarrow> (exn + ustr \<times> ustr) \<times> world" where
  "process_long_text e text chunk_size_arg max_chunks_arg w =
     (let cs = or_default chunk_size_arg (chunk_size e);
          mc = or_default max_chunks_arg (max_chunks e)
      in case py_range0 (int (length text)) cs of
           Inl ex \<Rightarrow> (Inl ex, w)
         | Inr starts \<Rightarrow>
             (case summarize_chunks e text cs mc (enumerate 0 starts) w of
                (summaries, w1) \<Rightarrow>
                  (let full_summary = join [10] summaries
                   in case retry_default (returning (get_summary_from_model e full_summary)) w1 of
                        (decision_summary, w2) \<Rightarrow>
                          (case retry_default (final_request_to_model e decision_summary) w2 of
                             (final_decision, w3) \<Rightarrow>
                               (Inr (full_summary, normalize_decision e final_decision), w3)))))"

text \<open>
  get_docx_or_pdf_content_by_announcement_id (file_utils.py): \<open>None\<close> without a folder for
  the id; otherwise the text the document libraries extract from the folder's files
  (\<open>None\<close> when they yield no text or raise).
\<close>

definition get_docx_or_pdf_content_by_announcement_id :: "env \<Rightarrow> string \<Rightarrow> world \<Rightarrow> ustr option" where
  "get_docx_or_pdf_content_by_announcement_id e announcement_id w =
     (case folders w announcement_id of
        None \<Rightarrow> None
      | Some files \<Rightarrow> folder_text e announcement_id files)"

text \<open>
  Lines 272 to 278 of final_score: the short path for a text of at most
  \<open>config.document.chunk_size\<close> characters, the long path otherwise.
\<close>

definition deep_analysis :: "env \<Rightarrow> ustr \<Rightarrow> world \<Rightarrow> (exn + ustr \<times> ustr) \<times> world" where
  "deep_analysis e doc_text w =
     (if int (length doc_text) \<le> chunk_size e
        then (case process_short_text e doc_text w of (r, w1) \<Rightarrow> (Inr r, w1))
      else process_long_text e doc_text None None w)"

text \<open>
  The body of final_score's \<open>try\<close>. _save_result only builds a dictionary and logs, so it
  leaves no trace here. The translation is requested whatever the decision is.
\<close>

definition final_score_body :: "env \<Rightarrow> string \<Rightarrow> world \<Rightarrow> (exn + ModelResponse) \<times> world" where
  "final_score_body e announcement_id w =
     (case get_docx_or_pdf_content_by_announcement_id e announcement_id w of
        None \<Rightarrow> (Inr \<lparr>decision = NET, summary = []\<rparr>, w)
      | Some doc_text \<Rightarrow>
          if doc_text = [] then (Inr \<lparr>decision = NET, summary = []\<rparr>, w)
          else if has_enough_keywords e doc_text None = False
            then (Inr \<lparr>decision = NET, summary = []\<rparr>, w)
          else
            (case deep_analysis e doc_text w of
               (Inl ex, w1) \<Rightarrow> (Inl ex, w1)
             | (Inr (summ, dec), w1) \<Rightarrow>
                 (case get_translate_of_summary e summ w1 of
                    (Inl ex, w2) \<Rightarrow> (Inl ex, w2)
                  | (Inr translated_summary, w2) \<Rightarrow>
                      (Inr \<lparr>decision = dec, summary = translated_summary\<rparr>, w2))))"

text \<open>
  final_score: \<open>except Exception\<close> around the whole body answers every exception with the
  rejection \<open>ModelResponse(decision="net", summary="")\<close>.
\<close>

definition final_score :: "env \<Rightarrow> string \<Rightarrow> world \<Rightarrow> (exn + ModelResponse) \<times> world" where
  "final_score e announcement_id w =
     (case final_score_body e announcement_id w of
        (Inl ex, w') \<Rightarrow> (Inr \<lparr>decision = NET, summary = []\<rparr>, w')
      | (Inr r, w') \<Rightarrow> (Inr r, w'))"


section \<open>parser.py and parsers/base_parser.py: the retry client\<close>

text \<open>
  The loop \<open>for attempt in range(1, retries + 1)\<close> of request_with_retry, which the two
  files share line for line: status 200 returns the response; status 429 sleeps 60
  seconds and goes on to the next attempt; any other status sleeps \<open>pause\<close>; a
  transport exception sleeps \<open>pause\<close> unless the attempt is the last. When the attempts
  are used up the result is \<open>None\<close>.
\<close>

fun request_attempts ::
  "env \<Rightarrow> string \<Rightarrow> int \<Rightarrow> nat \<Rightarrow> int list \<Rightarrow> world \<Rightarrow> page option \<times> world" where
  "request_attempts e url retries pause [] w = (None, w)"
| "request_attempts e url retries pause (attempt # rest) w =
     (case http_get e (trace w) url of
        Response code pg \<Rightarrow>
          if code = 200 then (Some pg, emit (Get url) w)
          else if code = 429
            then request_attempts e url retries pause rest (sleep 60 (emit (Get url) w))
          else request_attempts e url retries pause rest (sleep pause (emit (Get url) w))
      | ConnError \<Rightarrow>
          if attempt < retries
            then request_attempts e url retries pause rest (sleep pause (emit (Get url) w))
          else request_attempts e url retries pause rest (emit (Get url) w))"

text \<open>\<open>x or d\<close> for an optional delay.\<close>

definition or_default_nat :: "nat option \<Rightarrow> nat \<Rightarrow> nat" where
  "or_default_nat x d = (case x of None \<Rightarrow> d | Some v \<Rightarrow> if v = 0 then d else v)"



section \<open>downloader.py\<close>

definition new_stats :: DownloadStats where
  "new_stats = \<lparr>total_files = 0, downloaded_files = 0, skipped_files = 0, dl_errors = 0\<rparr>"

text \<open>raise_for_status raises for the statuses 400 to 599.\<close>

definition error_status :: "nat \<Rightarrow> bool" where
  "error_status code = (400 \<le> code \<and> code < 600)"

text \<open>
  The loop \<open>for attempt in range(max_retries)\<close> of FileDownloader.get_with_retries: a
  response without an error status is returned; a failure sleeps \<open>delay\<close>, or on the last
  attempt counts an error.
\<close>

fun get_attempts ::
  "env \<Rightarrow> string \<Rightarrow> int \<Rightarrow> nat \<Rightarrow> int list \<Rightarrow> DownloadStats \<Rightarrow> world
     \<Rightarrow> (page option \<times> DownloadStats) \<times> world" where
  "get_attempts e url max_retries delay [] st w = ((None, st), w)"
| "get_attempts e url max_retries delay (attempt # rest) st w =
     (case (case http_get e (trace w) url of
              ConnError \<Rightarrow> None
            | Response code pg \<Rightarrow> if error_status code then None else Some pg) of
        Some pg \<Rightarrow> ((Some pg, st), emit (Get url) w)
      | None \<Rightarrow>
          if attempt < max_retries - 1
            then get_attempts e url max_retries delay rest st (sleep delay (emit (Get url) w))
          else get_attempts e url max_retries delay rest
                 (st\<lparr>dl_errors := dl_errors st + 1\<rparr>) (emit (Get url) w))"

text \<open>
  FileDownloader.get_with_retries as downloader.py calls it: both optional arguments are
  left at \<open>None\<close>, so \<open>or\<close> takes the configuration's values.
\<close>

definition get_with_retries ::
  "env \<Rightarrow> string \<Rightarrow> DownloadStats \<Rightarrow> world \<Rightarrow> (page option \<times> DownloadStats) \<times> world" where
  "get_with_retries e url st w =
     (let max_retries = or_default None (scraping_max_retries e);
          delay = or_default_nat None (scraping_retry_delay e)
      in get_attempts e url max_retries delay [0..max_retries - 1] st w)"

text \<open>
  get_announcement_info. The fields come from the markup library; the function itself
  falls back to its argument for a missing announcement number and sets the link.
\<close>

definition get_announcement_info :: "env \<Rightarrow> string \<Rightarrow> world \<Rightarrow> info option \<times> world" where
  "get_announcement_info e announcement_id w =
     (let company_url = ''https://goszakup.gov.kz/ru/announce/index/'' @ announcement_id
      in case get_with_retries e company_url new_stats w of
           ((None, st), w') \<Rightarrow> (None, w')
         | ((Some pg, st), w') \<Rightarrow>
             (case pg_info pg of
                None \<Rightarrow> (None, w')
              | Some flds \<Rightarrow>
                  (Some (flds\<lparr>
                     i_announcement_id :=
                       (if i_announcement_id flds = [] then announcement_id
                        else i_announcement_id flds),
                     i_techspec_summary := [],
                     i_link := company_url\<rparr>), w')))"

text \<open>The name tried after \<open>counter - 1\<close> collisions: \<open>f"{category_id}_{counter}{ext}"\<close>.\<close>

definition numbered_name :: "string \<Rightarrow> string \<Rightarrow> nat \<Rightarrow> string" where
  "numbered_name category_id ext counter = category_id @ ''_'' @ str_of_nat counter @ ext"

text \<open>
  The \<open>while file_path.exists()\<close> loop ends because the numbered names are pairwise
  different: a decimal numeral determines its number.
\<close>

definition decimal_value :: "string \<Rightarrow> nat" where
  "decimal_value s = foldl (\<lambda>a c. 10 * a + (of_char c - 48)) 0 s"

lemma digit_char_value: "d < 10 \<Longrightarrow> of_char (digit_char d) - 48 = d"
proof -
  assume "d < 10"
  then have "d \<in> {0, 1, 2, 3, 4, 5, 6, 7, 8, 9}" by auto
  then show ?thesis by (auto simp: digit_char_def)
qed

lemma decimal_value_snoc: "decimal_value (s @ [c]) = 10 * decimal_value s + (of_char c - 48)"
  by (simp add: decimal_value_def)

lemma decimal_value_digits_of: "n < fuel \<Longrightarrow> decimal_value (digits_of fuel n) = n"
proof (induction fuel arbitrary: n)
  case 0
  then show ?case by simp
next
  case (Suc fuel)
  show ?case
  proof (cases "n < 10")
    case True
    then show ?thesis using decimal_value_snoc [of "[]" "digit_char n"]
      by (simp add: digit_char_value decimal_value_def)
  next
    case False
    then have "n div 10 < fuel" using Suc.prems by simp
    then have "decimal_value (digits_of fuel (n div 10)) = n div 10"
      by (rule Suc.IH)
    then show ?thesis using False
      by (simp add: decimal_value_snoc digit_char_value)
  qed
qed

lemma decimal_value_str_of_nat: "decimal_value (str_of_nat n) = n"
  unfolding str_of_nat_def by (rule decimal_value_digits_of) simp

lemma str_of_nat_inj: "str_of_nat a = str_of_nat b \<Longrightarrow> a = b"
  by (metis decimal_value_str_of_nat)

lemma inj_numbered_name: "inj (numbered_name category_id ext)"
  by (rule injI) (auto simp: numbered_name_def dest: str_of_nat_inj)

lemma finite_numbered: "finite {k. c \<le> k \<and> numbered_name category_id ext k \<in> set files}"
proof -
  have "finite (numbered_name category_id ext -` set files)"
    by (rule finite_vimageI [OF _ inj_numbered_name]) simp
  then show ?thesis
    by (rule rev_finite_subset) auto
qed

lemma numbered_split:
  "{k. c \<le> k \<and> numbered_name category_id ext k \<in> set files} =
   (if numbered_name category_id ext c \<in> set files then {c} else {}) \<union>
   {k. Suc c \<le> k \<and> numbered_name category_id ext k \<in> set files}"
  by (auto simp: Suc_le_eq le_less)

text \<open>
  The loop that picks the path of a download: starting from \<open>f"{category_id}{ext}"\<close>,
  while the path exists in the folder the next numbered name is tried.
\<close>

function unique_name :: "string list \<Rightarrow> string \<Rightarrow> string \<Rightarrow> string \<Rightarrow> nat \<Rightarrow> string" where
  "unique_name files category_id ext file_name counter =
     (if file_name \<in> set files
      then unique_name files category_id ext (numbered_name category_id ext counter) (counter + 1)
      else file_name)"
  by pat_completeness auto
termination
proof (relation "measure (\<lambda>(files, category_id, ext, file_name, counter).
          card {k. counter \<le> k \<and> numbered_name category_id ext k \<in> set files}
          + (if file_name \<in> set files then 1 else 0))")
  show "wf (measure (\<lambda>(files, category_id, ext, file_name, counter).
          card {k. counter \<le> k \<and> numbered_name category_id ext k \<in> set files}
          + (if file_name \<in> set files then 1 else 0)))"
    by simp
next
  fix files :: "string list" and category_id ext file_name :: string and counter :: nat
  assume "file_name \<in> set files"
  moreover have "card {k. counter \<le> k \<and> numbered_name category_id ext k \<in> set files} =
        (if numbered_name category_id ext counter \<in> set files then 1 else 0) +
        card {k. Suc counter \<le> k \<and> numbered_name category_id ext k \<in> set files}"
    by (subst numbered_split) (simp add: finite_numbered)
  ultimately show "((files, category_id, ext, numbered_name category_id ext counter, counter + 1),
          (files, category_id, ext, file_name, counter))
        \<in> measure (\<lambda>(files, category_id, ext, file_name, counter).
          card {k. counter \<le> k \<and> numbered_name category_id ext k \<in> set files}
          + (if file_name \<in> set files then 1 else 0))"
    by simp
qed

declare unique_name.simps [simp del]


text \<open>
  The extension of a download: \<open>".pdf"\<close> unless the Content-Disposition header is
  present, non-empty and holds a file name (\<open>disposition_ext\<close> stands for the two regular
  expressions, the URL unquoting and \<open>os.path.splitext\<close>).
\<close>

definition resolve_ext :: "env \<Rightarrow> string option \<Rightarrow> string" where
  "resolve_ext e content_disposition =
     (case content_disposition of
        None \<Rightarrow> ''.pdf''
      | Some cd \<Rightarrow>
          if cd = [] then ''.pdf''
          else (case disposition_ext e cd of None \<Rightarrow> ''.pdf'' | Some ext \<Rightarrow> ext))"

text \<open>The files of a folder (\<open>file_path.exists()\<close> asks for membership).\<close>

definition folder_files :: "world \<Rightarrow> string \<Rightarrow> string list" where
  "folder_files w raw_id = (case folders w raw_id of None \<Rightarrow> [] | Some files \<Rightarrow> files)"

text \<open>
  The loop \<open>for link in file_links\<close> of download_file, with the running
  \<open>downloaded_count\<close> and the downloader's statistics. For each link: a link with
  "signature" in it is passed over; the metadata probe decides the extension; the path
  is made unique; an existing path is skipped and counted; after a pause of 3 seconds
  the body is fetched and written, each failure counting an error.
\<close>

fun download_links ::
  "env \<Rightarrow> string \<Rightarrow> string \<Rightarrow> string \<Rightarrow> string list \<Rightarrow> nat \<Rightarrow> DownloadStats \<Rightarrow> world
     \<Rightarrow> (nat \<times> DownloadStats) \<times> world" where
  "download_links e announcement_id category_id raw_id [] downloaded_count st w =
     ((downloaded_count, st), w)"
| "download_links e announcement_id category_id raw_id (href # rest) downloaded_count st w =
     (if py_in ''signature'' href
        then download_links e announcement_id category_id raw_id rest downloaded_count st w
      else
        (case http_head e (trace w) href of
           HeadError \<Rightarrow>
             download_links e announcement_id category_id raw_id rest downloaded_count st
               (emit (Head href) w)
         | HeadOk content_disposition \<Rightarrow>
             (let w1 = emit (Head href) w;
                  ext = resolve_ext e content_disposition;
                  file_path = unique_name (folder_files w1 raw_id) category_id ext
                                (category_id @ ext) 1
              in if file_path \<in> set (folder_files w1 raw_id)
                   then download_links e announcement_id category_id raw_id rest downloaded_count
                          (st\<lparr>skipped_files := skipped_files st + 1\<rparr>) w1
                 else
                   (let w2 = sleep 3 w1
                    in if http_fetch e (trace w2) href = False
                         then download_links e announcement_id category_id raw_id rest
                                downloaded_count (st\<lparr>dl_errors := dl_errors st + 1\<rparr>)
                                (emit (Fetch href) w2)
                       else
                         (let w3 = emit (Fetch href) w2;
                              target = raw_id @ ''/'' @ file_path
                          in if write_ok e (trace w3) target
                               then download_links e announcement_id category_id raw_id rest
                                      (downloaded_count + 1)
                                      (st\<lparr>downloaded_files := downloaded_files st + 1\<rparr>)
                                      ((emit (Write target) w3)
                                         \<lparr>folders := (folders w3)
                                            (raw_id \<mapsto> folder_files w3 raw_id @ [file_path])\<rparr>)
                             else download_links e announcement_id category_id raw_id rest
                                    downloaded_count (st\<lparr>dl_errors := dl_errors st + 1\<rparr>)
                                    (emit (Write target) w3))))))"

text \<open>\<open>save_folder.mkdir(parents=True, exist_ok=True)\<close>.\<close>

definition mkdir :: "string \<Rightarrow> world \<Rightarrow> world" where
  "mkdir raw_id w =
     (emit (Mkdir raw_id) w)\<lparr>folders := (folders w)(raw_id \<mapsto> folder_files w raw_id)\<rparr>"

text \<open>
  download_file: the file listing of the category is fetched for \<open>announcement_id\<close>, the
  folder is made under \<open>raw_id\<close>. The statistics are those of the function's own
  FileDownloader when it returns.
\<close>

definition download_file ::
  "env \<Rightarrow> string \<Rightarrow> string \<Rightarrow> string \<Rightarrow> world \<Rightarrow> (bool \<times> DownloadStats) \<times> world" where
  "download_file e announcement_id category_id raw_id w =
     (let download_url =
            ''https://goszakup.gov.kz/ru/announce/actionAjaxModalShowFiles/''
              @ announcement_id @ ''/'' @ category_id
      in case get_with_retries e download_url new_stats w of
           ((None, st), w1) \<Rightarrow> ((False, st), w1)
         | ((Some pg, st), w1) \<Rightarrow>
             if pg_hrefs pg = [] then ((False, st), w1)
             else
               (case download_links e announcement_id category_id raw_id (pg_hrefs pg) 0 st
                       (mkdir raw_id w1) of
                  ((downloaded_count, st'), w2) \<Rightarrow> ((0 < downloaded_count, st'), w2)))"

text \<open>
  The loop \<open>for row in rows\<close> of process_by_announcement_id: the first row with at least
  three cells, a matching name and a category id starts the download and ends the loop.
\<close>

fun download_tech_spec :: "env \<Rightarrow> string \<Rightarrow> string \<Rightarrow> doc_row list \<Rightarrow> world \<Rightarrow> bool \<times> world" where
  "download_tech_spec e announcement_id raw_id [] w = (False, w)"
| "download_tech_spec e announcement_id raw_id (row # rest) w =
     (if n_columns row < 3 then download_tech_spec e announcement_id raw_id rest w
      else if py_in TECH_SPEC (doc_name row) \<or> py_in TECH_TASK (doc_name row)
        then (case category row of
                None \<Rightarrow> download_tech_spec e announcement_id raw_id rest w
              | Some category_id \<Rightarrow>
                  (case download_file e announcement_id category_id raw_id w of
                     ((ok, st), w') \<Rightarrow> (ok, w')))
      else download_tech_spec e announcement_id raw_id rest w)"

text \<open>
  process_by_announcement_id: \<open>raw_id\<close> keeps the argument for the folder, and
  \<open>announcement_id[:-2]\<close> is used for every URL.
\<close>

definition process_by_announcement_id :: "env \<Rightarrow> string \<Rightarrow> world \<Rightarrow> info option \<times> world" where
  "process_by_announcement_id e announcement_id_arg w =
     (let raw_id = announcement_id_arg;
          announcement_id = py_prefix announcement_id_arg (- 2);
          page_url = ''https://goszakup.gov.kz/ru/announce/index/'' @ announcement_id
                       @ ''?tab=documents''
      in case get_with_retries e page_url new_stats w of
           ((None, st), w1) \<Rightarrow> (None, w1)
         | ((Some pg, st), w1) \<Rightarrow>
             (case download_tech_spec e announcement_id raw_id (pg_rows pg) (sleep 2 w1) of
                (found, w2) \<Rightarrow> get_announcement_info e announcement_id w2))"

section \<open>uploader.py: the Intake Submitter\<close>

text \<open>\<open>s.isdigit()\<close>: at least one character, and every character a digit.\<close>

definition isdigit :: "env \<Rightarrow> ustr \<Rightarrow> bool" where
  "isdigit e s = (if s = [] then False else list_all (char_isdigit e) s)"

text \<open>DocumentUploader._validate_input_data: returns nothing, or raises ValueError.\<close>

definition validate_input_data ::
  "env \<Rightarrow> ustr \<Rightarrow> ustr \<Rightarrow> ustr \<Rightarrow> ustr \<Rightarrow> ustr \<Rightarrow> ustr \<Rightarrow> exn + unit" where
  "validate_input_data e company_name bin message file md5sum kratkij_ii_analiz_ts =
     (if list_all (\<lambda>x. x \<noteq> []) [company_name, bin, message, file, md5sum] = False
        then Inl ValueError
      else if isdigit e bin = False then Inl ValueError
      else if length bin \<noteq> 12 then Inl ValueError
      else if file = [] then Inl ValueError
      else if md5sum = [] then Inl ValueError
      else if length md5sum \<noteq> 32 then Inl ValueError
      else Inr ())"

text \<open>
  DocumentUploader.upload: a ValueError of the validation returns \<open>None\<close> before anything
  is sent; otherwise one POST, whose failures of every kind return \<open>None\<close> and whose
  success returns the document id.
\<close>

definition upload ::
  "env \<Rightarrow> ustr \<Rightarrow> ustr \<Rightarrow> ustr \<Rightarrow> ustr \<Rightarrow> ustr \<Rightarrow> ustr \<Rightarrow> world \<Rightarrow> ustr option \<times> world" where
  "upload e company_name bin message file md5sum kratkij_ii_analiz_ts w =
     (case validate_input_data e company_name bin message file md5sum kratkij_ii_analiz_ts of
        Inl ex \<Rightarrow> (None, w)
      | Inr u \<Rightarrow>
          (let data = \<lparr>p_bin = bin, p_company = company_name, p_message = message,
                        p_file = file, p_md5sum = md5sum, p_analysis = kratkij_ii_analiz_ts\<rparr>
           in (http_post e (trace w) data, emit (Post data) w)))"

text \<open>get_file_convert and get_file_md5 (file_utils.py): \<open>None\<close> without a folder.\<close>

definition get_file_convert :: "env \<Rightarrow> string \<Rightarrow> world \<Rightarrow> ustr option" where
  "get_file_convert e announcement_id w =
     (case folders w announcement_id of
        None \<Rightarrow> None
      | Some files \<Rightarrow> first_file_base64 e announcement_id files)"

definition get_file_md5 :: "env \<Rightarrow> string \<Rightarrow> world \<Rightarrow> ustr option" where
  "get_file_md5 e announcement_id w =
     (case folders w announcement_id of
        None \<Rightarrow> None
      | Some files \<Rightarrow> first_file_md5 e announcement_id files)"

text \<open>An absent or empty value is falsy.\<close>

definition truthy :: "'a list option \<Rightarrow> bool" where
  "truthy x = (case x of None \<Rightarrow> False | Some v \<Rightarrow> v \<noteq> [])"

text \<open>
  executor: the upload of one accepted tender. \<open>tender_message\<close> stands for the date
  formatting and _format_tender_message.
\<close>

definition executor :: "env \<Rightarrow> info \<Rightarrow> world \<Rightarrow> ustr option \<times> world" where
  "executor e item w =
     (if i_announcement_id item = [] then (None, w)
      else if i_correspondent item = [] then (None, w)
      else if truthy (i_correspondent_id item) = False then (None, w)
      else if truthy (get_file_convert e (i_announcement_id item) w) = False then (None, w)
      else if truthy (get_file_md5 e (i_announcement_id item) w) = False then (None, w)
      else upload e (i_correspondent item) (the (i_correspondent_id item))
             (tender_message e item)
             (the (get_file_convert e (i_announcement_id item) w))
             (the (get_file_md5 e (i_announcement_id item) w))
             (case i_summary item of None \<Rightarrow> [] | Some x \<Rightarrow> x) w)"

section \<open>main.py: the orchestrator\<close>

text \<open>
  TenderProcessor: the statistics (\<open>ProcessingStats\<close>) and the three dictionaries it
  keeps in memory.
\<close>

record processor =
  st_total_processed :: nat
  st_stage1_success :: nat
  st_stage2_success :: nat
  st_uploads_successful :: nat
  st_errors :: nat
  stage1_success :: "string \<rightharpoonup> bool"
  stage2_success :: "string \<rightharpoonup> info"
  already_processed :: "string \<rightharpoonup> ustr"

text \<open>An entry of the discovered announcements, with the results main.py writes into it.\<close>

record entry =
  en_name :: ustr
  en_result1 :: "ustr option"
  en_result2 :: "ustr option"

text \<open>The names of the checkpoint files (\<open>configGS\<close> of config.py).\<close>

definition FILTERED :: string where
  "FILTERED = ''filtered.json''"

definition STAGE1S :: string where
  "STAGE1S = ''stage1_success.json''"

definition STAGE2S :: string where
  "STAGE2S = ''stage2_success.json''"

text \<open>
  save_results_to_json (file_utils.py): the whole file is overwritten; a failure is
  caught and reported as \<open>False\<close>.
\<close>

definition save_results_to_json :: "env \<Rightarrow> checkpoint \<Rightarrow> string \<Rightarrow> world \<Rightarrow> bool \<times> world" where
  "save_results_to_json e results name w =
     (if write_ok e (trace w) name
        then (True, (emit (Write name) w)\<lparr>disk := (disk w)(name \<mapsto> results)\<rparr>)
      else (False, emit (Write name) w))"

text \<open>
  \<open>result2['decision']\<close>: \<open>result2\<close> is a \<open>ModelResponse\<close>, a dataclass without
  \<open>__getitem__\<close>, so subscripting it raises TypeError whatever the key is.
\<close>

definition subscript_ModelResponse :: "ModelResponse \<Rightarrow> string \<Rightarrow> exn + ustr" where
  "subscript_ModelResponse r key = Inl TypeError"

text \<open>\<open>self.stats.errors += 1\<close>.\<close>

definition count_error :: "processor \<Rightarrow> processor" where
  "count_error p = p\<lparr>st_errors := st_errors p + 1\<rparr>"

text \<open>
  TenderProcessor.process_announcement is one \<open>try\<close> whose \<open>except Exception\<close> counts an
  error. The only statements of its body that can raise are the subscripts of
  \<open>result2\<close> (final_score and the functions before it catch their own exceptions). The
  body is given in three parts, in the source's order.

  Lines 79 to 92, under \<open>if result2['decision'] == "da"\<close>: the acceptance is counted,
  the summary is put into \<open>info\<close>, which is recorded in \<open>stage2_success\<close>, and the
  tender is uploaded.
\<close>

definition accept_and_upload ::
  "env \<Rightarrow> processor \<Rightarrow> string \<Rightarrow> info \<Rightarrow> ModelResponse \<Rightarrow> entry \<Rightarrow> world
     \<Rightarrow> (processor \<times> entry) \<times> world" where
  "accept_and_upload e p announcement_id tender result2 ent w =
     (let p1 = p\<lparr>st_stage2_success := st_stage2_success p + 1\<rparr>
      in case subscript_ModelResponse result2 ''summary'' of
           Inl ex \<Rightarrow> ((count_error p1, ent), w)
         | Inr summ \<Rightarrow>
             (let tender1 = tender\<lparr>i_summary := Some summ\<rparr>;
                  p2 = p1\<lparr>stage2_success := (stage2_success p1)(announcement_id \<mapsto> tender1)\<rparr>
              in case executor e tender1 w of
                   (document_id, w1) \<Rightarrow>
                     if truthy document_id
                       then ((p2\<lparr>st_uploads_successful := st_uploads_successful p2 + 1\<rparr>, ent), w1)
                     else ((count_error p2, ent), w1)))"

text \<open>
  Lines 67 to 92, the second stage: document acquisition, whose failure counts an
  error and returns; final_score; the decision read from \<open>result2\<close>.
\<close>

definition second_stage ::
  "env \<Rightarrow> processor \<Rightarrow> string \<Rightarrow> entry \<Rightarrow> world \<Rightarrow> (processor \<times> entry) \<times> world" where
  "second_stage e p announcement_id ent w =
     (case process_by_announcement_id e announcement_id w of
        (None, w1) \<Rightarrow> ((count_error p, ent), w1)
      | (Some tender, w1) \<Rightarrow>
          (case final_score e announcement_id w1 of
             (Inl ex, w2) \<Rightarrow> ((count_error p, ent), w2)
           | (Inr result2, w2) \<Rightarrow>
               (case subscript_ModelResponse result2 ''decision'' of
                  Inl ex \<Rightarrow> ((count_error p, ent), w2)
                | Inr dec \<Rightarrow>
                    if dec = DA
                      then accept_and_upload e p announcement_id tender result2
                             (ent\<lparr>en_result2 := Some dec\<rparr>) w2
                    else ((p, ent\<lparr>en_result2 := Some dec\<rparr>), w2))))"

text \<open>
  Lines 49 to 63 and 93 to 94: the announcement is counted, marked as seen and the file
  of seen announcements is rewritten; the title is classified; "vozmozhno" counts a
  stage-1 success, records the id in \<open>stage1_success\<close> and enters the second stage.
\<close>

definition process_announcement ::
  "env \<Rightarrow> processor \<Rightarrow> string \<Rightarrow> entry \<Rightarrow> world \<Rightarrow> (processor \<times> entry) \<times> world" where
  "process_announcement e p announcement_id ent w =
     (let p1 = p\<lparr>st_total_processed := st_total_processed p + 1\<rparr>;
          p2 = p1\<lparr>already_processed := (already_processed p1)(announcement_id \<mapsto> en_name ent)\<rparr>
      in case save_results_to_json e (Filtered (already_processed p2)) FILTERED w of
           (saved, w1) \<Rightarrow>
             (case request_to_model e (en_name ent) w1 of
                (result1, w2) \<Rightarrow>
                  if result1 = VOZMOZHNO
                    then second_stage e
                           (p2\<lparr>st_stage1_success := st_stage1_success p2 + 1,
                               stage1_success := (stage1_success p2)(announcement_id \<mapsto> True)\<rparr>)
                           announcement_id (ent\<lparr>en_result1 := Some result1\<rparr>) w2
                  else ((p2, ent\<lparr>en_result1 := Some result1\<rparr>), w2)))"




text \<open>get_results_from_json for the file of seen announcements.\<close>

definition load_processed_data :: "world \<Rightarrow> string \<rightharpoonup> ustr" where
  "load_processed_data w =
     (case disk w FILTERED of Some (Filtered m) \<Rightarrow> m | _ \<Rightarrow> Map.empty)"

definition new_processor :: "world \<Rightarrow> processor" where
  "new_processor w =
     \<lparr>st_total_processed = 0, st_stage1_success = 0, st_stage2_success = 0,
      st_uploads_successful = 0, st_errors = 0,
      stage1_success = Map.empty, stage2_success = Map.empty,
      already_processed = load_processed_data w\<rparr>"


section \<open>Notions used in the statements\<close>

text \<open>
  \<open>extends P w w'\<close>: the trace of \<open>w'\<close> is the trace of \<open>w\<close> followed by events that all
  satisfy \<open>P\<close>.
\<close>

definition extends :: "(event \<Rightarrow> bool) \<Rightarrow> world \<Rightarrow> world \<Rightarrow> bool" where
  "extends P w w' =
     (take (length (trace w)) (trace w') = trace w \<and>
      list_all P (drop (length (trace w)) (trace w')))"

text \<open>The events that \<open>w'\<close> has after those of \<open>w\<close>.\<close>

definition new_events :: "world \<Rightarrow> world \<Rightarrow> event list" where
  "new_events w w' = drop (length (trace w)) (trace w')"

text \<open>\<open>unchanged w w'\<close>: the checkpoint files and the folders are as before.\<close>

definition unchanged :: "world \<Rightarrow> world \<Rightarrow> bool" where
  "unchanged w w' = (disk w' = disk w \<and> folders w' = folders w)"

text \<open>
  \<open>touches raw_id w w'\<close>: the checkpoint files are as before, and so is every folder but
  that of \<open>raw_id\<close>.
\<close>

definition touches :: "string \<Rightarrow> world \<Rightarrow> world \<Rightarrow> bool" where
  "touches raw_id w w' =
     (disk w' = disk w \<and> (folders w')(raw_id := None) = (folders w)(raw_id := None))"

text \<open>An upload attempt in the trace.\<close>

definition is_post :: "event \<Rightarrow> bool" where
  "is_post ev = (case ev of Post d \<Rightarrow> True | _ \<Rightarrow> False)"




text \<open>
  The long path as the specification describes it, over a given list of chunks: each
  chunk is summarized through the retry wrapper, in order.
\<close>

fun summarize_list :: "env \<Rightarrow> ustr list \<Rightarrow> world \<Rightarrow> ustr list \<times> world" where
  "summarize_list e [] w = ([], w)"
| "summarize_list e (c # cs) w =
     (case retry_default (returning (get_summary_from_model e c)) w of
        (summ, w1) \<Rightarrow>
          (case summarize_list e cs w1 of
             (summaries, w2) \<Rightarrow> (summ # summaries, w2)))"

text \<open>
  Then the chunk summaries are joined by newlines, the joined text is summarized again,
  and the classification is made on that combined summary.
\<close>

definition long_path_over :: "env \<Rightarrow> ustr list \<Rightarrow> world \<Rightarrow> (ustr \<times> ustr) \<times> world" where
  "long_path_over e chunks w =
     (case summarize_list e chunks w of
        (summaries, w1) \<Rightarrow>
          (case retry_default (returning (get_summary_from_model e (join [10] summaries))) w1 of
             (decision_summary, w2) \<Rightarrow>
               (case retry_default (final_request_to_model e decision_summary) w2 of
                  (final_decision, w3) \<Rightarrow>
                    ((join [10] summaries, normalize_decision e final_decision), w3))))"

text \<open>The fixed-size slice \<open>text[i * chunk_size : (i + 1) * chunk_size]\<close>.\<close>

definition chunk :: "ustr \<Rightarrow> int \<Rightarrow> nat \<Rightarrow> ustr" where
  "chunk text cs i = take (nat cs) (drop (i * nat cs) text)"

text \<open>
  \<open>min(ceil(L / chunk_size), max_chunks)\<close>, the quotient rounded up being
  \<open>(L + chunk_size - 1) div chunk_size\<close>.
\<close>

definition chunk_count :: "nat \<Rightarrow> int \<Rightarrow> int \<Rightarrow> nat" where
  "chunk_count L cs mc = min (nat ((int L + cs - 1) div cs)) (nat mc)"

text \<open>The chunks the long path works on.\<close>

definition chunks_of :: "ustr \<Rightarrow> int \<Rightarrow> int \<Rightarrow> ustr list" where
  "chunks_of text cs mc = map (chunk text cs) [0..<chunk_count (length text) cs mc]"

text \<open>
  What the long path may add to the trace: summarizations of the given chunks and of
  the joined summaries, classifications, and pauses of 5 seconds.
\<close>

definition long_path_event :: "ustr list \<Rightarrow> ustr \<Rightarrow> event \<Rightarrow> bool" where
  "long_path_event chunks full_summary ev =
     (case ev of
        Model c \<Rightarrow>
          (case c of
             Summarize t \<Rightarrow> t \<in> set chunks \<or> t = full_summary
           | Classify t \<Rightarrow> True
           | Generate t \<Rightarrow> False
           | Translate t \<Rightarrow> False)
      | Sleep n \<Rightarrow> n = 5
      | _ \<Rightarrow> False)"

text \<open>The trace of \<open>k\<close> failed attempts of one request: each is followed by \<open>delay\<close> seconds.\<close>

definition failed_attempts :: "model_call \<Rightarrow> nat \<Rightarrow> nat \<Rightarrow> event list" where
  "failed_attempts c delay k = concat (replicate k [Model c, Sleep delay])"

text \<open>What the retry wrapper takes for a failed attempt: an exception or an empty result.\<close>

definition retryable :: "exn + ustr \<Rightarrow> bool" where
  "retryable r = (case r of Inl ex \<Rightarrow> True | Inr v \<Rightarrow> v = [])"

text \<open>The result of get_summary_from_model for an answer of the model.\<close>

definition summary_of :: "ustr option \<Rightarrow> exn + ustr" where
  "summary_of r = (case r of None \<Rightarrow> Inr [] | Some x \<Rightarrow> Inr (strip x))"

text \<open>The result of final_request_to_model, with \<open>model_name\<close> bound, for an answer.\<close>

definition classification_of :: "env \<Rightarrow> ustr option \<Rightarrow> exn + ustr" where
  "classification_of e r =
     (case r of None \<Rightarrow> Inl RequestException | Some x \<Rightarrow> Inr (str_lower e (strip x)))"

section \<open>Concrete scenarios\<close>

text \<open>
  Lower-casing for ASCII and the basic Cyrillic block, enough for the scenarios below
  (the theorems hold for every \<open>str_lower\<close>).
\<close>

definition lower_cp :: "nat \<Rightarrow> nat" where
  "lower_cp c =
     (if 65 \<le> c \<and> c \<le> 90 then c + 32
      else if 1040 \<le> c \<and> c \<le> 1071 then c + 32
      else if 1024 \<le> c \<and> c \<le> 1039 then c + 80
      else c)"

text \<open>ASCII literals as code points.\<close>

definition U :: "string \<Rightarrow> ustr" where
  "U s = map of_char s"

text \<open>
  The repository as it stands, with the default configuration, in a world where every
  remote request fails and the data directory is empty.
\<close>

definition repo_env :: env where
  "repo_env =
     \<lparr>chunk_size = 3000, max_chunks = 5, keyword_threshold = 2,
      scraping_max_retries = 3, scraping_retry_delay = 5,
      str_lower = map lower_cp,
      char_isdigit = (\<lambda>c. 48 \<le> c \<and> c \<le> 57),
      scorer_model_name = None,
      model_reply = (\<lambda>tr c. None),
      http_get = (\<lambda>tr url. ConnError),
      http_head = (\<lambda>tr url. HeadError),
      http_fetch = (\<lambda>tr url. False),
      http_post = (\<lambda>tr p. None),
      write_ok = (\<lambda>tr path. True),
      disposition_ext = (\<lambda>cd. None),
      folder_text = (\<lambda>aid files. None),
      first_file_base64 = (\<lambda>aid files. None),
      first_file_md5 = (\<lambda>aid files. None),
      tender_message = (\<lambda>i. [])\<rparr>"

definition empty_world :: world where
  "empty_world = \<lparr>trace = [], folders = Map.empty, disk = Map.empty\<rparr>"

text \<open>
  A downloaded specification whose text holds exactly one keyword, the abbreviation
  U+0441 U+044D U+0434, in upper case.
\<close>

definition one_keyword_env :: env where
  "one_keyword_env = repo_env\<lparr>folder_text := (\<lambda>aid files. Some [1057, 1069, 1044])\<rparr>"

definition one_file_world :: world where
  "one_file_world = empty_world\<lparr>folders := [''1234567-1'' \<mapsto> [''7.pdf'']]\<rparr>"

text \<open>
  A tender that should be accepted. The announcement ''1234567-1'' has a technical
  specification in category 7 with one file; the extracted text is 35 characters long
  and holds three keywords (the two abbreviations and "elektronnyi dokumentooborot");
  the model answers "vozmozhno" to the title, "da" to the classification, and a text
  to every summarization and translation.
\<close>

definition three_keywords_text :: ustr where
  "three_keywords_text = [1101, 1094, 1087, 32, 1089, 1101, 1076, 32] @ hd KEYWORDS"

definition tender_fields :: info where
  "tender_fields =
     \<lparr>i_announcement_id = ''1234567-1'', i_name = Some (U ''SED''),
      i_amount = Some (U ''1000000''), i_type = Some (U ''Tender''),
      i_status = Some (U ''Opublikovano''), i_correspondent = U ''TOO Romashka'',
      i_correspondent_id = Some (U ''123456789012''),
      i_started_at = Some ''2025-01-10 09:00:00'', i_finished_at = Some ''2025-01-20 18:00:00'',
      i_techspec_summary = [], i_link = [], i_summary = None\<rparr>"

definition portal_get :: "event list \<Rightarrow> string \<Rightarrow> get_result" where
  "portal_get tr url =
     (if url = ''https://goszakup.gov.kz/ru/announce/index/1234567?tab=documents''
        then Response 200
               \<lparr>pg_rows = [\<lparr>n_columns = 3, doc_name = TECH_SPEC, category = Some ''7''\<rparr>],
                pg_hrefs = [], pg_info = None\<rparr>
      else if url = ''https://goszakup.gov.kz/ru/announce/actionAjaxModalShowFiles/1234567/7''
        then Response 200
               \<lparr>pg_rows = [], pg_hrefs = [''https://goszakup.gov.kz/files/download_file/555''],
                pg_info = None\<rparr>
      else if url = ''https://goszakup.gov.kz/ru/announce/index/1234567''
        then Response 200 \<lparr>pg_rows = [], pg_hrefs = [], pg_info = Some tender_fields\<rparr>
      else ConnError)"

definition willing_model :: "event list \<Rightarrow> model_call \<Rightarrow> ustr option" where
  "willing_model tr c =
     (case c of
        Generate d \<Rightarrow> Some VOZMOZHNO
      | Summarize t \<Rightarrow> Some (U ''SED'')
      | Classify t \<Rightarrow> Some DA
      | Translate t \<Rightarrow> Some (U ''SED''))"

definition accept_env :: env where
  "accept_env =
     repo_env\<lparr>model_reply := willing_model, http_get := portal_get,
       http_head := (\<lambda>tr url. HeadOk None), http_fetch := (\<lambda>tr url. True),
       folder_text := (\<lambda>aid files. if files = [] then None else Some three_keywords_text),
       first_file_base64 := (\<lambda>aid files. if files = [] then None else Some (U ''UEsDBA=='')),
       first_file_md5 := (\<lambda>aid files.
          if files = [] then None else Some (U ''0123456789abcdef0123456789abcdef'')),
       tender_message := (\<lambda>i. U ''Nazvanie: SED'')\<rparr>"

text \<open>The same, with the global \<open>model_name\<close> bound in scorer.py.\<close>

definition accept_env_bound :: env where
  "accept_env_bound = accept_env\<lparr>scorer_model_name := Some (U ''llama3'')\<rparr>"

definition sed_entry :: entry where
  "sed_entry = \<lparr>en_name = U ''SED'', en_result1 = None, en_result2 = None\<rparr>"

text \<open>The world after the acquisition of that tender's specification.\<close>

definition downloaded_world :: world where
  "downloaded_world = empty_world\<lparr>folders := [''1234567-1'' \<mapsto> [''7.pdf'']]\<rparr>"



text \<open>
  The accepted tender again, with \<open>model_name\<close> bound, on a day when the model answers
  every request but the translation.
\<close>

definition no_translation_model :: "event list \<Rightarrow> model_call \<Rightarrow> ustr option" where
  "no_translation_model tr c = (case c of Translate t \<Rightarrow> None | _ \<Rightarrow> willing_model tr c)"

definition no_translation_env :: env where
  "no_translation_env = accept_env_bound\<lparr>model_reply := no_translation_model\<rparr>"






text \<open>
  A configuration with chunks of 3 characters, at most 2 of them, and a text of 7
  characters.
\<close>

definition tiny_env :: env where
  "tiny_env = repo_env\<lparr>chunk_size := 3, max_chunks := 2, model_reply := willing_model\<rparr>"

definition seven_letters :: ustr where
  "seven_letters = U ''abcdefg''"

text \<open>The accepted tender's model, out of service, with \<open>model_name\<close> bound.\<close>

definition dead_env :: env where
  "dead_env = repo_env\<lparr>scorer_model_name := Some (U ''llama3''), chunk_size := 3, max_chunks := 2\<rparr>"

text \<open>A model that fails twice and answers from the third request on.\<close>

definition flaky_env :: env where
  "flaky_env = repo_env\<lparr>model_reply := (\<lambda>tr c. if length tr < 4 then None else Some (U ''SED''))\<rparr>"

section \<open>Traces\<close>

text \<open>Every function only adds to the trace, and only events of its own kind.\<close>

lemma extends_refl: "extends P w w"
  by (simp add: extends_def)

lemma extendsI: "trace w' = trace w @ evs \<Longrightarrow> list_all P evs \<Longrightarrow> extends P w w'"
  by (simp add: extends_def)

lemma extendsE: "extends P w w' \<Longrightarrow> \<exists>evs. trace w' = trace w @ evs \<and> list_all P evs"
  unfolding extends_def by (metis append_take_drop_id)

lemma extends_trans: "extends P w w1 \<Longrightarrow> extends P w1 w2 \<Longrightarrow> extends P w w2"
proof -
  assume a: "extends P w w1" and b: "extends P w1 w2"
  from a obtain xs where xs: "trace w1 = trace w @ xs" "list_all P xs"
    using extendsE by blast
  from b obtain ys where ys: "trace w2 = trace w1 @ ys" "list_all P ys"
    using extendsE by blast
  show ?thesis
    by (rule extendsI [where evs = "xs @ ys"]) (simp_all add: xs ys)
qed

lemma extends_emit: "P ev \<Longrightarrow> extends P w (emit ev w)"
  by (simp add: extends_def emit_def)

lemma extends_sleep: "P (Sleep n) \<Longrightarrow> extends P w (sleep n w)"
  by (simp add: sleep_def extends_emit)

lemma extends_trace_eq: "trace w' = trace w \<Longrightarrow> extends P w w'"
  by (simp add: extends_def)

lemma extends_mono: "extends P w w' \<Longrightarrow> (\<And>ev. P ev \<Longrightarrow> Q ev) \<Longrightarrow> extends Q w w'"
  unfolding extends_def list_all_iff by auto

lemma post_model_extends: "P (Model c) \<Longrightarrow> extends P w (snd (post_model e c w))"
  by (simp add: post_model_def extends_emit)

lemma request_to_model_extends:
  "P (Model (Generate d)) \<Longrightarrow> extends P w (snd (request_to_model e d w))"
  using post_model_extends [of P "Generate d" w e]
  by (auto simp: request_to_model_def Let_def split: prod.splits option.splits)

lemma get_summary_extends:
  "P (Model (Summarize t)) \<Longrightarrow> extends P w (snd (get_summary_from_model e t w))"
  using post_model_extends [of P "Summarize t" w e]
  by (auto simp: get_summary_from_model_def split: prod.splits option.splits)

lemma translate_extends:
  "P (Model (Translate t)) \<Longrightarrow> extends P w (snd (get_translate_of_summary e t w))"
  using post_model_extends [of P "Translate t" w e]
  by (auto simp: get_translate_of_summary_def extends_refl split: prod.splits option.splits)

lemma final_request_extends:
  "P (Model (Classify t)) \<Longrightarrow> extends P w (snd (final_request_to_model e t w))"
  using post_model_extends [of P "Classify t" w e]
  by (auto simp: final_request_to_model_def extends_refl split: prod.splits option.splits)

lemma retry_attempts_extends:
  assumes f: "\<And>w. extends P w (snd (func w))" and s: "P (Sleep delay)"
  shows "extends P w (snd (retry_attempts func delay attempts w))"
proof (induction attempts arbitrary: w)
  case Nil
  show ?case by (simp add: extends_refl)
next
  case (Cons attempt rest)
  obtain r w1 where fw: "func w = (r, w1)" by (cases "func w")
  have e1: "extends P w w1" using f [of w] fw by simp
  have e2: "extends P w (sleep delay w1)"
    using e1 extends_sleep [of P delay w1] s by (blast intro: extends_trans)
  have e3: "extends P w (snd (retry_attempts func delay rest (sleep delay w1)))"
    by (rule extends_trans [OF e2 Cons.IH])
  show ?case using e1 e3 fw
    by (auto split: sum.splits)
qed

lemma retry_default_extends:
  assumes "\<And>w. extends P w (snd (func w))" and "P (Sleep 5)"
  shows "extends P w (snd (retry_default func w))"
  unfolding retry_default_def retry_model_request_def
  by (rule retry_attempts_extends [OF assms])

lemma returning_extends:
  "extends P w (snd (f w)) \<Longrightarrow> extends P w (snd (returning f w))"
  by (auto simp: returning_def split: prod.splits)

lemma unchanged_refl: "unchanged w w"
  by (simp add: unchanged_def)


lemma unchanged_emit: "unchanged w (emit ev w)"
  by (simp add: unchanged_def emit_def)










lemma retry_summary_extends:
  "P (Model (Summarize t)) \<Longrightarrow> P (Sleep 5) \<Longrightarrow>
   extends P w (snd (retry_default (returning (get_summary_from_model e t)) w))"
  by (rule retry_default_extends) (simp_all add: returning_extends get_summary_extends)


lemma retry_classify_extends:
  "P (Model (Classify t)) \<Longrightarrow> P (Sleep 5) \<Longrightarrow>
   extends P w (snd (retry_default (final_request_to_model e t) w))"
  by (rule retry_default_extends) (simp_all add: final_request_extends)


lemma process_short_text_extends:
  assumes "\<And>c. P (Model c)" and "P (Sleep 5)"
  shows "extends P w (snd (process_short_text e t w))"
proof -
  obtain s w1 where a: "get_summary_from_model e t w = (s, w1)"
    by (cases "get_summary_from_model e t w")
  obtain d w2 where b: "retry_default (final_request_to_model e t) w1 = (d, w2)"
    by (cases "retry_default (final_request_to_model e t) w1")
  have "extends P w w1" using get_summary_extends [of P t w e] assms a by simp
  moreover have "extends P w1 w2" using retry_classify_extends [of P t w1 e] assms b by simp
  ultimately show ?thesis using a b
    by (auto simp: process_short_text_def intro: extends_trans)
qed


lemma summarize_chunks_extends:
  assumes "\<And>c. P (Model c)" and "P (Sleep 5)"
  shows "extends P w (snd (summarize_chunks e t cs mc xs w))"
proof (induction xs arbitrary: w)
  case Nil
  show ?case by (simp add: extends_refl)
next
  case (Cons x xs)
  obtain i start where x: "x = (i, start)" by (cases x)
  obtain s w1 where a:
    "retry_default (returning (get_summary_from_model e (py_slice t start (start + cs)))) w = (s, w1)"
    by (cases "retry_default (returning (get_summary_from_model e (py_slice t start (start + cs)))) w")
  have "extends P w w1"
    using retry_summary_extends [of P "py_slice t start (start + cs)" w e] assms a by simp
  then have "extends P w (snd (summarize_chunks e t cs mc xs w1))"
    using Cons.IH [of w1] by (blast intro: extends_trans)
  then show ?case using a x
    by (auto simp: extends_refl split: prod.splits)
qed


lemma process_long_text_extends:
  assumes "\<And>c. P (Model c)" and "P (Sleep 5)"
  shows "extends P w (snd (process_long_text e t a b w))"
proof (cases "py_range0 (int (length t)) (or_default a (chunk_size e))")
  case (Inl ex)
  then show ?thesis by (simp add: process_long_text_def Let_def extends_refl)
next
  case (Inr starts)
  let ?cs = "or_default a (chunk_size e)" and ?mc = "or_default b (max_chunks e)"
  obtain ss w1 where s1: "summarize_chunks e t ?cs ?mc (enumerate 0 starts) w = (ss, w1)"
    by (cases "summarize_chunks e t ?cs ?mc (enumerate 0 starts) w")
  obtain ds w2 where s2:
    "retry_default (returning (get_summary_from_model e (join [10] ss))) w1 = (ds, w2)"
    by (cases "retry_default (returning (get_summary_from_model e (join [10] ss))) w1")
  obtain fd w3 where s3: "retry_default (final_request_to_model e ds) w2 = (fd, w3)"
    by (cases "retry_default (final_request_to_model e ds) w2")
  have "extends P w w1" using summarize_chunks_extends [of P w e t ?cs ?mc "enumerate 0 starts"] assms s1 by simp
  moreover have "extends P w1 w2" using retry_summary_extends [of P "join [10] ss" w1 e] assms s2 by simp
  moreover have "extends P w2 w3" using retry_classify_extends [of P ds w2 e] assms s3 by simp
  ultimately have "extends P w w3" by (blast intro: extends_trans)
  then show ?thesis using Inr s1 s2 s3
    by (simp add: process_long_text_def Let_def)
qed


lemma final_score_body_extends:
  assumes "\<And>c. P (Model c)" and "P (Sleep 5)"
  shows "extends P w (snd (final_score_body e a w))"
proof (cases "get_docx_or_pdf_content_by_announcement_id e a w")
  case None
  then show ?thesis by (simp add: final_score_body_def extends_refl)
next
  case (Some t)
  let ?deep = "deep_analysis e t w"
  have deep: "extends P w (snd ?deep)"
    using process_short_text_extends [of P w e t] process_long_text_extends [of P w e t None None] assms
    by (auto simp: deep_analysis_def split: prod.splits)
  show ?thesis
  proof (cases "t = [] \<or> has_enough_keywords e t None = False")
    case True
    then show ?thesis using Some by (auto simp: final_score_body_def extends_refl)
  next
    case False
    obtain r w1 where d: "?deep = (r, w1)" by (cases ?deep)
    show ?thesis
    proof (cases r)
      case (Inl ex)
      then show ?thesis using Some False d deep
        by (simp add: final_score_body_def)
    next
      case (Inr sd)
      obtain summ dec where sd: "sd = (summ, dec)" by (cases sd)
      have "extends P w1 (snd (get_translate_of_summary e summ w1))"
        using translate_extends [of P summ w1 e] assms by simp
      then have "extends P w (snd (get_translate_of_summary e summ w1))"
        using deep d by (auto intro: extends_trans)
      then show ?thesis using Some False d Inr sd
        by (auto simp: final_score_body_def split: prod.splits sum.splits)
    qed
  qed
qed


lemma final_score_snd: "snd (final_score e a w) = snd (final_score_body e a w)"
  by (simp add: final_score_def split: prod.splits sum.splits)

lemma final_score_extends:
  assumes "\<And>c. P (Model c)" and "P (Sleep 5)"
  shows "extends P w (snd (final_score e a w))"
  unfolding final_score_snd by (rule final_score_body_extends [OF assms])


lemma final_score_returns: "\<exists>r. fst (final_score e a w) = Inr r"
  by (simp add: final_score_def split: prod.splits sum.splits)

lemma get_attempts_extends:
  assumes "P (Get url)" and "P (Sleep delay)"
  shows "extends P w (snd (get_attempts e url mr delay attempts st w))"
proof (induction attempts arbitrary: st w)
  case Nil
  show ?case by (simp add: extends_refl)
next
  case (Cons attempt rest)
  have g: "extends P w (emit (Get url) w)"
    using assms(1) by (simp add: extends_emit)
  have s: "extends P w (sleep delay (emit (Get url) w))"
    using g extends_sleep [of P delay "emit (Get url) w"] assms(2) by (blast intro: extends_trans)
  have a: "\<And>st'. extends P w (snd (get_attempts e url mr delay rest st' (emit (Get url) w)))"
    using g Cons.IH by (blast intro: extends_trans)
  have b: "\<And>st'. extends P w (snd (get_attempts e url mr delay rest st' (sleep delay (emit (Get url) w))))"
    using s Cons.IH by (blast intro: extends_trans)
  show ?case using g a b
    by (auto split: get_result.splits option.splits)
qed


lemma get_with_retries_extends:
  assumes "P (Get url)" and "\<And>n. P (Sleep n)"
  shows "extends P w (snd (get_with_retries e url st w))"
  unfolding get_with_retries_def Let_def
  by (rule get_attempts_extends) (simp_all add: assms)


lemma get_announcement_info_snd:
  "snd (get_announcement_info e a w) =
   snd (get_with_retries e (''https://goszakup.gov.kz/ru/announce/index/'' @ a) new_stats w)"
  by (simp add: get_announcement_info_def Let_def split: prod.splits option.splits)

lemma get_announcement_info_extends:
  assumes "P (Get (''https://goszakup.gov.kz/ru/announce/index/'' @ a))" and "\<And>n. P (Sleep n)"
  shows "extends P w (snd (get_announcement_info e a w))"
  unfolding get_announcement_info_snd by (rule get_with_retries_extends [OF assms])


lemma request_attempts_extends:
  assumes "P (Get url)" and "\<And>n. P (Sleep n)"
  shows "extends P w (snd (request_attempts e url retries pause attempts w))"
proof (induction attempts arbitrary: w)
  case Nil
  show ?case by (simp add: extends_refl)
next
  case (Cons attempt rest)
  have g: "extends P w (emit (Get url) w)"
    using assms(1) by (simp add: extends_emit)
  have s: "\<And>n. extends P w (sleep n (emit (Get url) w))"
    using g extends_sleep [of P _ "emit (Get url) w"] assms(2) by (blast intro: extends_trans)
  have a: "extends P w (snd (request_attempts e url retries pause rest (emit (Get url) w)))"
    using g Cons.IH by (blast intro: extends_trans)
  have b: "\<And>n. extends P w (snd (request_attempts e url retries pause rest (sleep n (emit (Get url) w))))"
    using s Cons.IH by (blast intro: extends_trans)
  show ?case using g a b
    by (auto split: get_result.splits)
qed

lemma upload_extends:
  assumes "\<And>d. P (Post d)"
  shows "extends P w (snd (upload e c b m f h k w))"
  by (auto simp: upload_def Let_def extends_refl extends_emit assms split: sum.splits)

lemma upload_unchanged: "unchanged w (snd (upload e c b m f h k w))"
  by (auto simp: upload_def Let_def unchanged_refl unchanged_emit split: sum.splits)

lemma executor_extends:
  assumes "\<And>d. P (Post d)"
  shows "extends P w (snd (executor e item w))"
  by (simp add: executor_def extends_refl upload_extends assms)

lemma executor_unchanged: "unchanged w (snd (executor e item w))"
  by (simp add: executor_def unchanged_refl upload_unchanged)




lemma touches_other: "touches r w w' \<Longrightarrow> k \<noteq> r \<Longrightarrow> folders w' k = folders w k"
  unfolding touches_def by (metis fun_upd_other)




lemma touches_write: "touches r w (w'\<lparr>folders := (folders w')(r \<mapsto> fs)\<rparr>) = touches r w w'"
  by (auto simp: touches_def fun_eq_iff)


lemma mkdir_extends: "P (Mkdir r) \<Longrightarrow> extends P w (mkdir r w)"
  by (simp add: mkdir_def extends_def emit_def)

lemma extends_folders_update:
  "extends P w (w'\<lparr>folders := f\<rparr>) = extends P w w'"
  by (simp add: extends_def)

lemma download_links_extends:
  assumes "\<And>h. P (Head h)" and "\<And>h. P (Fetch h)" and "\<And>f. P (Write (r @ ''/'' @ f))"
      and "P (Sleep 3)"
  shows "extends P w (snd (download_links e a c r hrefs n st w))"
proof (induction hrefs arbitrary: n st w)
  case Nil
  show ?case by (simp add: extends_refl)
next
  case (Cons href rest)
  have step: "\<And>w1 n' st'. extends P w w1 \<Longrightarrow>
      extends P w (snd (download_links e a c r rest n' st' w1))"
    using Cons.IH by (blast intro: extends_trans)
  let ?w1 = "emit (Head href) w"
  let ?w2 = "sleep 3 ?w1"
  let ?w3 = "emit (Fetch href) ?w2"
  have e1: "extends P w ?w1" by (simp add: extends_emit assms)
  have e2: "extends P w ?w2"
    using e1 extends_sleep [of P 3 ?w1] assms(4) by (blast intro: extends_trans)
  have e3: "extends P w ?w3"
    using e2 extends_emit [of P "Fetch href" ?w2] assms(2) by (blast intro: extends_trans)
  have e4: "\<And>f. extends P w (emit (Write (r @ ''/'' @ f)) ?w3)"
    using e3 extends_emit [of P _ ?w3] assms(3) by (blast intro: extends_trans)
  have e5: "\<And>f g. extends P w ((emit (Write (r @ ''/'' @ f)) ?w3)\<lparr>folders := g\<rparr>)"
    using e4 by (simp add: extends_folders_update)
  show ?case
    using step [OF extends_refl] step [OF e1] step [OF e3] step [OF e4] step [OF e5]
    by (auto simp: Let_def split: head_result.splits)
qed


lemma download_file_extends:
  assumes "P (Get (''https://goszakup.gov.kz/ru/announce/actionAjaxModalShowFiles/'' @ a @ ''/'' @ c))"
      and "\<And>n. P (Sleep n)" and "P (Mkdir r)"
      and "\<And>h. P (Head h)" and "\<And>h. P (Fetch h)" and "\<And>f. P (Write (r @ ''/'' @ f))"
  shows "extends P w (snd (download_file e a c r w))"
proof -
  let ?url = "''https://goszakup.gov.kz/ru/announce/actionAjaxModalShowFiles/'' @ a @ ''/'' @ c"
  obtain pg st w1 where g: "get_with_retries e ?url new_stats w = ((pg, st), w1)"
    by (cases "get_with_retries e ?url new_stats w") auto
  have e1: "extends P w w1"
    using get_with_retries_extends [of P ?url w e new_stats] assms g by simp
  have e2: "extends P w (mkdir r w1)"
    using e1 mkdir_extends [of P r w1] assms(3) by (blast intro: extends_trans)
  have e3: "\<And>hrefs n st'. extends P w (snd (download_links e a c r hrefs n st' (mkdir r w1)))"
    using e2 download_links_extends [of P r "mkdir r w1" e a c] assms
    by (blast intro: extends_trans)
  show ?thesis using g e1 e3
    by (cases pg) (simp_all add: download_file_def Let_def case_prod_beta)
qed


lemma download_tech_spec_extends:
  assumes "\<And>c. P (Get (''https://goszakup.gov.kz/ru/announce/actionAjaxModalShowFiles/'' @ a @ ''/'' @ c))"
      and "\<And>n. P (Sleep n)" and "P (Mkdir r)"
      and "\<And>h. P (Head h)" and "\<And>h. P (Fetch h)" and "\<And>f. P (Write (r @ ''/'' @ f))"
  shows "extends P w (snd (download_tech_spec e a r rows w))"
proof (induction rows)
  case Nil
  show ?case by (simp add: extends_refl)
next
  case (Cons row rest)
  have "\<And>c. extends P w (snd (download_file e a c r w))"
    by (rule download_file_extends) (rule assms)+
  then show ?case using Cons.IH
    by (simp add: case_prod_beta split: option.splits)
qed


lemma process_by_announcement_id_extends:
  assumes "P (Get (''https://goszakup.gov.kz/ru/announce/index/'' @ py_prefix r (- 2) @ ''?tab=documents''))"
      and "\<And>c. P (Get (''https://goszakup.gov.kz/ru/announce/actionAjaxModalShowFiles/''
                        @ py_prefix r (- 2) @ ''/'' @ c))"
      and "P (Get (''https://goszakup.gov.kz/ru/announce/index/'' @ py_prefix r (- 2)))"
      and "\<And>n. P (Sleep n)" and "P (Mkdir r)"
      and "\<And>h. P (Head h)" and "\<And>h. P (Fetch h)" and "\<And>f. P (Write (r @ ''/'' @ f))"
  shows "extends P w (snd (process_by_announcement_id e r w))"
proof -
  let ?a = "py_prefix r (- 2)"
  let ?url = "''https://goszakup.gov.kz/ru/announce/index/'' @ ?a @ ''?tab=documents''"
  obtain pg st w1 where g: "get_with_retries e ?url new_stats w = ((pg, st), w1)"
    by (cases "get_with_retries e ?url new_stats w") auto
  have e1: "extends P w w1"
    using get_with_retries_extends [of P ?url w e new_stats] assms g by simp
  have e2: "extends P w (sleep 2 w1)"
    using e1 extends_sleep [of P 2 w1] assms(4) by (blast intro: extends_trans)
  have e3: "\<And>rows. extends P w (snd (download_tech_spec e ?a r rows (sleep 2 w1)))"
    using e2 download_tech_spec_extends [of P ?a r "sleep 2 w1" e] assms
    by (blast intro: extends_trans)
  have e4: "\<And>rows. extends P w
      (snd (get_announcement_info e ?a (snd (download_tech_spec e ?a r rows (sleep 2 w1)))))"
    using e3 get_announcement_info_extends [of P ?a _ e] assms
    by (blast intro: extends_trans)
  show ?thesis using g e1 e4
    by (cases pg) (simp_all add: process_by_announcement_id_def Let_def case_prod_beta)
qed


lemma save_results_to_json_extends:
  "P (Write name) \<Longrightarrow> extends P w (snd (save_results_to_json e results name w))"
  by (simp add: save_results_to_json_def extends_def emit_def)



lemma save_results_to_json_folders:
  "folders (snd (save_results_to_json e results name w)) = folders w"
  by (simp add: save_results_to_json_def emit_def)

lemmas scorer_defs = post_model_def request_to_model_def get_summary_from_model_def
  get_translate_of_summary_def final_request_to_model_def retry_default_def
  retry_model_request_def returning_def normalize_decision_def keyword_count_def
  has_enough_keywords_def process_short_text_def process_long_text_def deep_analysis_def
  get_docx_or_pdf_content_by_announcement_id_def final_score_body_def final_score_def
  emit_def sleep_def startswith_def strip_def isspace_def or_default_def

lemmas downloader_defs = get_with_retries_def get_announcement_info_def numbered_name_def
  resolve_ext_def folder_files_def mkdir_def download_file_def
  process_by_announcement_id_def py_prefix_def py_slice_def clip_index_def new_stats_def
  error_status_def or_default_nat_def unique_name.simps str_of_nat_def digit_char_def

lemmas main_defs = save_results_to_json_def subscript_ModelResponse_def count_error_def
  accept_and_upload_def second_stage_def process_announcement_def new_processor_def
  load_processed_data_def FILTERED_def STAGE1S_def STAGE2S_def

lemmas const_defs = DA_def NET_def VOZMOZHNO_def NEIZVESTNO_def KEYWORDS_def TECH_SPEC_def
  TECH_TASK_def U_def lower_cp_def

lemmas accept_defs = accept_env_def accept_env_bound_def repo_env_def willing_model_def
  portal_get_def tender_fields_def three_keywords_text_def sed_entry_def empty_world_def

lemma upto_0_2: "[0..2::int] = [0, 1, 2]"
  by (simp add: upto.simps)

lemma upt_0_3: "[0..<3] = [0, 1, 2]"
  by (simp add: upt_rec)

lemma accept_run:
  "process_announcement accept_env (new_processor empty_world) ''1234567-1'' sed_entry empty_world =
   ((\<lparr>st_total_processed = 1, st_stage1_success = 1, st_stage2_success = 0,
      st_uploads_successful = 0, st_errors = 1,
      stage1_success = [''1234567-1'' \<mapsto> True], stage2_success = Map.empty,
      already_processed = [''1234567-1'' \<mapsto> U ''SED'']\<rparr>,
     sed_entry\<lparr>en_result1 := Some VOZMOZHNO\<rparr>),
    \<lparr>trace =
       [Write ''filtered.json'', Model (Generate (U ''SED'')),
        Get ''https://goszakup.gov.kz/ru/announce/index/1234567?tab=documents'',
        Sleep 2,
        Get ''https://goszakup.gov.kz/ru/announce/actionAjaxModalShowFiles/1234567/7'',
        Mkdir ''1234567-1'',
        Head ''https://goszakup.gov.kz/files/download_file/555'', Sleep 3,
        Fetch ''https://goszakup.gov.kz/files/download_file/555'',
        Write ''1234567-1/7.pdf'',
        Get ''https://goszakup.gov.kz/ru/announce/index/1234567'',
        Model (Summarize three_keywords_text),
        Sleep 5, Sleep 5, Sleep 5],
     folders = [''1234567-1'' \<mapsto> [''7.pdf'']],
     disk = [''filtered.json'' \<mapsto> Filtered [''1234567-1'' \<mapsto> U ''SED'']]\<rparr>)"
  by (simp add: scorer_defs downloader_defs main_defs const_defs accept_defs upto_0_2 upt_0_3 Let_def)

lemma second_stage_snd:
  "snd (second_stage e p a ent w) =
   (case process_by_announcement_id e a w of
      (None, w1) \<Rightarrow> w1
    | (Some tender, w1) \<Rightarrow> snd (final_score e a w1))"
  by (simp add: second_stage_def subscript_ModelResponse_def split: prod.splits option.splits sum.splits)

lemma second_stage_fst:
  "fst (second_stage e p a ent w) = (count_error p, ent)"
  by (simp add: second_stage_def subscript_ModelResponse_def split: prod.splits option.splits sum.splits)

lemma second_stage_extends:
  assumes "P (Get (''https://goszakup.gov.kz/ru/announce/index/'' @ py_prefix a (- 2) @ ''?tab=documents''))"
      and "\<And>c. P (Get (''https://goszakup.gov.kz/ru/announce/actionAjaxModalShowFiles/''
                        @ py_prefix a (- 2) @ ''/'' @ c))"
      and "P (Get (''https://goszakup.gov.kz/ru/announce/index/'' @ py_prefix a (- 2)))"
      and "\<And>n. P (Sleep n)" and "P (Mkdir a)"
      and "\<And>h. P (Head h)" and "\<And>h. P (Fetch h)" and "\<And>f. P (Write (a @ ''/'' @ f))"
      and "\<And>c. P (Model c)"
  shows "extends P w (snd (second_stage e p a ent w))"
proof -
  have e1: "extends P w (snd (process_by_announcement_id e a w))"
    by (rule process_by_announcement_id_extends) (rule assms)+
  have e2: "extends P w (snd (final_score e a (snd (process_by_announcement_id e a w))))"
    using e1 final_score_extends [of P _ e a] assms by (blast intro: extends_trans)
  show ?thesis using e1 e2
    by (simp add: second_stage_snd case_prod_beta split: option.splits)
qed


text \<open>The world in which process_announcement enters the second stage or returns.\<close>

lemma process_announcement_snd:
  "snd (process_announcement e p a ent w) =
   (let w1 = snd (save_results_to_json e
                    (Filtered ((already_processed p)(a \<mapsto> en_name ent))) FILTERED w);
        w2 = snd (request_to_model e (en_name ent) w1)
    in if fst (request_to_model e (en_name ent) w1) = VOZMOZHNO
         then snd (second_stage e
                (p\<lparr>st_total_processed := st_total_processed p + 1,
                   already_processed := (already_processed p)(a \<mapsto> en_name ent),
                   st_stage1_success := st_stage1_success p + 1,
                   stage1_success := (stage1_success p)(a \<mapsto> True)\<rparr>)
                a (ent\<lparr>en_result1 := Some VOZMOZHNO\<rparr>) w2)
       else w2)"
  by (simp add: process_announcement_def Let_def case_prod_beta)

lemma process_announcement_stage2:
  "stage2_success (fst (fst (process_announcement e p a ent w))) = stage2_success p
   \<and> st_stage2_success (fst (fst (process_announcement e p a ent w))) = st_stage2_success p
   \<and> st_uploads_successful (fst (fst (process_announcement e p a ent w))) = st_uploads_successful p"
  by (simp add: process_announcement_def Let_def case_prod_beta second_stage_fst count_error_def)

lemma process_announcement_extends:
  assumes "P (Write FILTERED)" and "P (Model (Generate (en_name ent)))"
      and "P (Get (''https://goszakup.gov.kz/ru/announce/index/'' @ py_prefix a (- 2) @ ''?tab=documents''))"
      and "\<And>c. P (Get (''https://goszakup.gov.kz/ru/announce/actionAjaxModalShowFiles/''
                        @ py_prefix a (- 2) @ ''/'' @ c))"
      and "P (Get (''https://goszakup.gov.kz/ru/announce/index/'' @ py_prefix a (- 2)))"
      and "\<And>n. P (Sleep n)" and "P (Mkdir a)"
      and "\<And>h. P (Head h)" and "\<And>h. P (Fetch h)" and "\<And>f. P (Write (a @ ''/'' @ f))"
      and "\<And>c. P (Model c)"
  shows "extends P w (snd (process_announcement e p a ent w))"
proof -
  let ?w1 = "snd (save_results_to_json e (Filtered ((already_processed p)(a \<mapsto> en_name ent))) FILTERED w)"
  let ?w2 = "snd (request_to_model e (en_name ent) ?w1)"
  have e1: "extends P w ?w1"
    by (rule save_results_to_json_extends) (rule assms)
  have e2: "extends P w ?w2"
    using e1 request_to_model_extends [of P "en_name ent" ?w1 e] assms(2) by (blast intro: extends_trans)
  have e3: "\<And>q en. extends P ?w2 (snd (second_stage e q a en ?w2))"
    by (rule second_stage_extends) (rule assms)+
  have e4: "\<And>q en. extends P w (snd (second_stage e q a en ?w2))"
    using e2 e3 by (blast intro: extends_trans)
  show ?thesis using e2 e4
    by (simp add: process_announcement_snd Let_def)
qed




lemma accept_run_bound:
  "process_announcement accept_env_bound (new_processor empty_world) ''1234567-1'' sed_entry empty_world =
   ((\<lparr>st_total_processed = 1, st_stage1_success = 1, st_stage2_success = 0,
      st_uploads_successful = 0, st_errors = 1,
      stage1_success = [''1234567-1'' \<mapsto> True], stage2_success = Map.empty,
      already_processed = [''1234567-1'' \<mapsto> U ''SED'']\<rparr>,
     sed_entry\<lparr>en_result1 := Some VOZMOZHNO\<rparr>),
    \<lparr>trace =
       [Write ''filtered.json'', Model (Generate (U ''SED'')),
        Get ''https://goszakup.gov.kz/ru/announce/index/1234567?tab=documents'',
        Sleep 2,
        Get ''https://goszakup.gov.kz/ru/announce/actionAjaxModalShowFiles/1234567/7'',
        Mkdir ''1234567-1'',
        Head ''https://goszakup.gov.kz/files/download_file/555'', Sleep 3,
        Fetch ''https://goszakup.gov.kz/files/download_file/555'',
        Write ''1234567-1/7.pdf'',
        Get ''https://goszakup.gov.kz/ru/announce/index/1234567'',
        Model (Summarize three_keywords_text),
        Model (Classify three_keywords_text),
        Model (Translate (U ''SED''))],
     folders = [''1234567-1'' \<mapsto> [''7.pdf'']],
     disk = [''filtered.json'' \<mapsto> Filtered [''1234567-1'' \<mapsto> U ''SED'']]\<rparr>)"
  by (simp add: scorer_defs downloader_defs main_defs const_defs accept_defs upto_0_2 upt_0_3 Let_def)

lemma accept_title: "fst (request_to_model accept_env_bound (U ''SED'') empty_world) = VOZMOZHNO"
  by (simp add: scorer_defs const_defs accept_defs)

lemma accept_keywords:
  "keyword_count accept_env_bound three_keywords_text = 3 \<and> length three_keywords_text = 35"
  by (simp add: scorer_defs const_defs accept_defs)

lemma accept_final_score:
  "fst (final_score accept_env_bound ''1234567-1'' downloaded_world)
     = Inr \<lparr>decision = DA, summary = U ''SED''\<rparr>"
  by (simp add: scorer_defs const_defs accept_defs downloaded_world_def upt_0_3)






lemma process_announcement_never_posts:
  "filter is_post (new_events w (snd (process_announcement e p a ent w))) = []"
proof -
  have "extends (\<lambda>ev. is_post ev = False) w (snd (process_announcement e p a ent w))"
    by (rule process_announcement_extends) (simp_all add: is_post_def)
  then show ?thesis
    by (simp add: extends_def new_events_def filter_empty_conv list_all_iff)
qed

lemma translate_events:
  "new_events w (snd (get_translate_of_summary e t w))
     = (if scorer_model_name e = None then [] else [Model (Translate t)])"
  by (simp add: get_translate_of_summary_def post_model_def emit_def new_events_def
      split: option.splits)

lemma final_score_translation_failure:
  assumes "get_docx_or_pdf_content_by_announcement_id e a w = Some t"
      and "t \<noteq> []" and "has_enough_keywords e t None"
      and "deep_analysis e t w = (Inr (summ, dec), w1)"
      and "get_translate_of_summary e summ w1 = (Inl ex, w2)"
  shows "final_score e a w = (Inr \<lparr>decision = NET, summary = []\<rparr>, w2)"
  using assms by (simp add: final_score_def final_score_body_def)

lemma no_translation_run:
  "final_score no_translation_env ''1234567-1'' downloaded_world =
     (Inr \<lparr>decision = NET, summary = []\<rparr>,
      downloaded_world\<lparr>trace := [Model (Summarize three_keywords_text),
                                  Model (Classify three_keywords_text),
                                  Model (Translate (U ''SED''))]\<rparr>)"
  by (simp add: scorer_defs const_defs accept_defs downloaded_world_def upt_0_3
      no_translation_env_def no_translation_model_def)

lemma repo_translation_run:
  "final_score accept_env ''1234567-1'' downloaded_world =
     (Inr \<lparr>decision = NET, summary = []\<rparr>,
      downloaded_world\<lparr>trace := [Model (Summarize three_keywords_text),
                                  Sleep 5, Sleep 5, Sleep 5]\<rparr>)"
  by (simp add: scorer_defs const_defs accept_defs downloaded_world_def upt_0_3)




lemma length_upto_1: "length [1..n] = nat n"
  by simp


lemma unique_name_fresh: "unique_name files category_id ext file_name counter \<notin> set files"
proof (induction files category_id ext file_name counter rule: unique_name.induct)
  case (1 files category_id ext file_name counter)
  then show ?case
    by (subst unique_name.simps) simp
qed


lemma download_links_never_skips:
  "skipped_files (snd (fst (download_links e a c r hrefs n st w))) = skipped_files st"
proof (induction hrefs arbitrary: n st w)
  case Nil
  show ?case by simp
next
  case (Cons href rest)
  show ?case
    by (simp add: Let_def unique_name_fresh Cons.IH split: head_result.splits)
qed

lemma get_attempts_skipped:
  "skipped_files (snd (fst (get_attempts e url mr delay attempts st w))) = skipped_files st"
  by (induction attempts arbitrary: st w) (auto split: get_result.splits option.splits)

lemma download_file_never_skips:
  "skipped_files (snd (fst (download_file e a c r w))) = 0"
proof -
  let ?url = "''https://goszakup.gov.kz/ru/announce/actionAjaxModalShowFiles/'' @ a @ ''/'' @ c"
  have "skipped_files (snd (fst (get_with_retries e ?url new_stats w))) = 0"
    by (simp add: get_with_retries_def Let_def get_attempts_skipped new_stats_def)
  then show ?thesis
    by (simp add: download_file_def Let_def case_prod_beta download_links_never_skips
        split: option.splits)
qed




lemma ceil_div_least:
  fixes L cs k :: int
  assumes "0 < cs"
  shows "((L + cs - 1) div cs \<le> k) = (L \<le> k * cs)"
proof -
  define q where "q = (L + cs - 1) div cs"
  define r where "r = (L + cs - 1) mod cs"
  have r: "0 \<le> r" "r < cs" using assms by (simp_all add: r_def)
  have eq: "L + cs - 1 = cs * q + r" by (simp add: q_def r_def)
  show ?thesis
  proof
    assume "(L + cs - 1) div cs \<le> k"
    then have "q \<le> k" by (simp add: q_def)
    then have "cs * q \<le> cs * k" using assms by simp
    then have "L \<le> cs * k" using eq r by linarith
    then show "L \<le> k * cs" by (simp add: mult.commute)
  next
    assume "L \<le> k * cs"
    moreover have "cs * (k + 1) = k * cs + cs" by (simp add: algebra_simps)
    ultimately have "cs * q < cs * (k + 1)" using eq r by linarith
    then have "q < k + 1" using assms by simp
    then show "(L + cs - 1) div cs \<le> k" by (simp add: q_def)
  qed
qed

lemma py_slice_chunk:
  assumes "0 < cs"
  shows "py_slice text (int i * cs) (int i * cs + cs) = chunk text cs i"
proof -
  have a: "nat (int i * cs) = i * nat cs" using assms by (simp add: nat_mult_distrib)
  have p: "0 \<le> int i * cs" using assms by simp
  show ?thesis
  proof (cases "int i * cs < int (length text)")
    case True
    then have "i * nat cs < length text" using a p by linarith
    then show ?thesis using assms True p a
      by (auto simp: py_slice_def chunk_def clip_index_def Let_def min_def nat_diff_distrib'
          nat_add_distrib)
  next
    case False
    then have "length text \<le> i * nat cs" using a p by linarith
    then show ?thesis using assms False p
      by (auto simp: py_slice_def chunk_def clip_index_def Let_def min_def)
  qed
qed

lemma summarize_chunks_enumerate:
  assumes "0 < cs" and "0 \<le> mc"
  shows "summarize_chunks e text cs mc (enumerate i0 (map (\<lambda>k. int k * cs) [i0..<m])) w =
         summarize_list e (map (chunk text cs) [i0..<min m (nat mc)]) w"
proof (induction "m - i0" arbitrary: i0 w)
  case 0
  then show ?case by simp
next
  case (Suc d)
  then have lt: "i0 < m" and d: "d = m - Suc i0" by simp_all
  have list: "[i0..<m] = i0 # [Suc i0..<m]" using lt by (simp add: upt_rec)
  show ?case
  proof (cases "mc \<le> int i0")
    case True
    then have "min m (nat mc) \<le> i0" using assms(2) by simp
    then show ?thesis using True list by simp
  next
    case False
    then have "i0 < min m (nat mc)" using lt by simp
    then have list2: "[i0..<min m (nat mc)] = i0 # [Suc i0..<min m (nat mc)]"
      by (simp add: upt_rec)
    have ih: "summarize_chunks e text cs mc
                (enumerate (Suc i0) (map (\<lambda>k. int k * cs) [Suc i0..<m])) w' =
              summarize_list e (map (chunk text cs) [Suc i0..<min m (nat mc)]) w'" for w'
      using d by (rule Suc.hyps(1))
    show ?thesis using False list list2 ih py_slice_chunk [OF assms(1), of "text" i0]
      by (simp add: enumerate_simps)
  qed
qed

lemma concat_chunks:
  assumes "0 < cs"
  shows "concat (map (chunk text cs) [0..<n]) = take (n * nat cs) text"
proof (induction n)
  case 0
  show ?case by simp
next
  case (Suc n)
  have "take (n * nat cs) text @ take (nat cs) (drop (n * nat cs) text)
          = take (n * nat cs + nat cs) text"
    by (simp add: take_add)
  then show ?case using Suc
    by (simp add: chunk_def add.commute)
qed

lemma summarize_list_length: "length (fst (summarize_list e chunks w)) = length chunks"
  by (induction chunks arbitrary: w) (simp_all add: case_prod_beta)

lemma summarize_list_extends:
  assumes "\<And>c. c \<in> set chunks \<Longrightarrow> P (Model (Summarize c))" and "P (Sleep 5)"
  shows "extends P w (snd (summarize_list e chunks w))"
  using assms(1)
proof (induction chunks arbitrary: w)
  case Nil
  show ?case by (simp add: extends_refl)
next
  case (Cons c rest)
  let ?w1 = "snd (retry_default (returning (get_summary_from_model e c)) w)"
  have "extends P w ?w1"
    by (rule retry_summary_extends) (simp_all add: Cons.prems assms(2))
  moreover have "extends P ?w1 (snd (summarize_list e rest ?w1))"
    by (rule Cons.IH) (simp add: Cons.prems)
  ultimately show ?case
    by (simp add: case_prod_beta) (blast intro: extends_trans)
qed

lemma long_path_over_extends:
  "extends (long_path_event chunks (fst (fst (long_path_over e chunks w)))) w
     (snd (long_path_over e chunks w))"
proof -
  let ?full = "join [10] (fst (summarize_list e chunks w))"
  let ?P = "long_path_event chunks ?full"
  let ?w1 = "snd (summarize_list e chunks w)"
  let ?r2 = "retry_default (returning (get_summary_from_model e ?full)) ?w1"
  let ?r3 = "retry_default (final_request_to_model e (fst ?r2)) (snd ?r2)"
  have e1: "extends ?P w ?w1"
    by (rule summarize_list_extends) (simp_all add: long_path_event_def)
  have e2: "extends ?P ?w1 (snd ?r2)"
    by (rule retry_summary_extends) (simp_all add: long_path_event_def)
  have e3: "extends ?P (snd ?r2) (snd ?r3)"
    by (rule retry_classify_extends) (simp_all add: long_path_event_def)
  have "extends ?P w (snd ?r3)"
    using e1 e2 e3 by (blast intro: extends_trans)
  then show ?thesis
    by (simp add: long_path_over_def case_prod_beta)
qed

lemma process_long_text_chunks:
  assumes "0 < chunk_size e" and "0 \<le> max_chunks e" and "chunk_size e < int (length text)"
  shows "process_long_text e text None None w =
           (case long_path_over e (chunks_of text (chunk_size e) (max_chunks e)) w of
              (r, w') \<Rightarrow> (Inr r, w'))"
proof -
  let ?cs = "chunk_size e" and ?mc = "max_chunks e"
  let ?m = "nat ((int (length text) + ?cs - 1) div ?cs)"
  have range: "py_range0 (int (length text)) ?cs = Inr (map (\<lambda>k. int k * ?cs) [0..<?m])"
    using assms by (simp add: py_range0_def)
  have loop: "summarize_chunks e text ?cs ?mc (enumerate 0 (map (\<lambda>k. int k * ?cs) [0..<?m])) w =
              summarize_list e (chunks_of text ?cs ?mc) w"
    using summarize_chunks_enumerate [OF assms(1,2), of e "text" 0 "?m" w]
    by (simp add: chunks_of_def chunk_count_def)
  show ?thesis
    using range loop
    by (simp add: process_long_text_def long_path_over_def or_default_def Let_def case_prod_beta)
qed

lemma chunks_of_nth:
  "i < length (chunks_of text cs mc) \<Longrightarrow>
   chunks_of text cs mc ! i = take (nat cs) (drop (i * nat cs) text)"
  by (simp add: chunks_of_def chunk_def)

lemma tiny_run:
  "process_long_text tiny_env seven_letters None None empty_world =
     (Inr (U ''SED'' @ [10] @ U ''SED'', NET),
      empty_world\<lparr>trace := [Model (Summarize (U ''abc'')), Model (Summarize (U ''def'')),
                               Model (Summarize (U ''SED'' @ [10] @ U ''SED'')),
                               Sleep 5, Sleep 5, Sleep 5]\<rparr>)"
  by (simp add: scorer_defs const_defs accept_defs tiny_env_def seven_letters_def upt_0_3
      py_range0_def py_slice_def clip_index_def Let_def upt_rec)

lemma failed_attempts_Suc:
  "failed_attempts c delay (Suc k) = [Model c, Sleep delay] @ failed_attempts c delay k"
  by (simp add: failed_attempts_def)

lemma retry_attempts_exhausted:
  assumes f: "\<And>w. func w = (out (model_reply e (trace w) c), emit (Model c) w)"
      and bad: "\<forall>j<length attempts. retryable (out (model_reply e (trace w @ failed_attempts c delay j) c))"
  shows "retry_attempts func delay attempts w =
           (NET, w\<lparr>trace := trace w @ failed_attempts c delay (length attempts)\<rparr>)"
  using bad
proof (induction attempts arbitrary: w)
  case Nil
  show ?case by (simp add: failed_attempts_def)
next
  case (Cons attempt rest)
  let ?w' = "sleep delay (emit (Model c) w)"
  have tr: "trace ?w' = trace w @ [Model c, Sleep delay]"
    by (simp add: sleep_def emit_def)
  have first: "retryable (out (model_reply e (trace w) c))"
    using Cons.prems by (force simp: failed_attempts_def)
  have rest: "\<forall>j<length rest. retryable (out (model_reply e (trace ?w' @ failed_attempts c delay j) c))"
  proof (intro allI impI)
    fix j assume "j < length rest"
    then have "Suc j < length (attempt # rest)" by simp
    then show "retryable (out (model_reply e (trace ?w' @ failed_attempts c delay j) c))"
      using Cons.prems by (simp only: tr append_assoc failed_attempts_Suc [symmetric])
  qed
  have ih: "retry_attempts func delay rest ?w' =
           (NET, ?w'\<lparr>trace := trace ?w' @ failed_attempts c delay (length rest)\<rparr>)"
    by (rule Cons.IH [OF rest])
  show ?case using first ih f [of w]
    by (auto simp: retryable_def sleep_def emit_def failed_attempts_Suc split: sum.splits)
qed

lemma retry_attempts_succeeds:
  assumes f: "\<And>w. func w = (out (model_reply e (trace w) c), emit (Model c) w)"
      and bad: "\<forall>j<k. retryable (out (model_reply e (trace w @ failed_attempts c delay j) c))"
      and good: "out (model_reply e (trace w @ failed_attempts c delay k) c) = Inr v" "v \<noteq> []"
      and k: "k < length attempts"
  shows "retry_attempts func delay attempts w =
           (v, w\<lparr>trace := trace w @ failed_attempts c delay k @ [Model c]\<rparr>)"
  using bad good(1) k
proof (induction attempts arbitrary: w k)
  case Nil
  then show ?case by simp
next
  case (Cons attempt rest)
  show ?case
  proof (cases k)
    case 0
    then have "out (model_reply e (trace w) c) = Inr v"
      using Cons.prems(2) by (simp add: failed_attempts_def)
    then show ?thesis using 0 good(2) f [of w]
      by (simp add: emit_def failed_attempts_def)
  next
    case (Suc k')
    let ?w' = "sleep delay (emit (Model c) w)"
    have tr: "trace ?w' = trace w @ [Model c, Sleep delay]"
      by (simp add: sleep_def emit_def)
    have first: "retryable (out (model_reply e (trace w) c))"
      using Cons.prems(1) Suc by (force simp: failed_attempts_def)
    have p1: "\<forall>j<k'. retryable (out (model_reply e (trace ?w' @ failed_attempts c delay j) c))"
    proof (intro allI impI)
      fix j assume "j < k'"
      then have "Suc j < k" using Suc by simp
      then show "retryable (out (model_reply e (trace ?w' @ failed_attempts c delay j) c))"
        using Cons.prems(1) by (simp only: tr append_assoc failed_attempts_Suc [symmetric])
    qed
    have p2: "out (model_reply e (trace ?w' @ failed_attempts c delay k') c) = Inr v"
      using Cons.prems(2) Suc by (simp only: tr append_assoc failed_attempts_Suc [symmetric])
    have p3: "k' < length rest" using Cons.prems(3) Suc by simp
    have ih: "retry_attempts func delay rest ?w' =
           (v, ?w'\<lparr>trace := trace ?w' @ failed_attempts c delay k' @ [Model c]\<rparr>)"
      by (rule Cons.IH [OF p1 p2 p3])
    show ?thesis using first ih Suc f [of w]
      by (auto simp: retryable_def sleep_def emit_def failed_attempts_Suc split: sum.splits)
  qed
qed

lemma retry_attempts_nonempty: "fst (retry_attempts func delay attempts w) \<noteq> []"
  by (induction attempts arbitrary: w) (auto simp: NET_def split: prod.splits sum.splits)

lemma retry_default_nonempty: "fst (retry_default func w) \<noteq> []"
  by (simp add: retry_default_def retry_model_request_def retry_attempts_nonempty)

lemma summary_request:
  "returning (get_summary_from_model e t) w =
     (summary_of (model_reply e (trace w) (Summarize t)), emit (Model (Summarize t)) w)"
  by (simp add: returning_def get_summary_from_model_def post_model_def summary_of_def
      split: option.splits)

lemma classify_request:
  "scorer_model_name e = Some m \<Longrightarrow>
   final_request_to_model e t w =
     (classification_of e (model_reply e (trace w) (Classify t)), emit (Model (Classify t)) w)"
  by (simp add: final_request_to_model_def post_model_def classification_of_def
      split: option.splits)

lemma length_upt_0_3: "length [0..<3] = 3"
  by simp

lemma retry_unbound:
  "scorer_model_name e = None \<Longrightarrow>
   retry_default (final_request_to_model e t) w =
     (NET, w\<lparr>trace := trace w @ [Sleep 5, Sleep 5, Sleep 5]\<rparr>)"
  by (simp add: retry_default_def retry_model_request_def final_request_to_model_def upt_0_3
      sleep_def emit_def)

lemma dead_summary:
  assumes "\<And>tr c. model_reply e tr c = None"
  shows "retry_default (returning (get_summary_from_model e t)) w =
           (NET, w\<lparr>trace := trace w @ failed_attempts (Summarize t) 5 3\<rparr>)"
  using retry_attempts_exhausted [of "returning (get_summary_from_model e t)" summary_of e
      "Summarize t" "[0..<3]" w 5]
  by (simp add: retry_default_def retry_model_request_def summary_request assms summary_of_def
      retryable_def)

lemma dead_classify:
  assumes "\<And>tr c. model_reply e tr c = None" and "scorer_model_name e = Some m"
  shows "retry_default (final_request_to_model e t) w =
           (NET, w\<lparr>trace := trace w @ failed_attempts (Classify t) 5 3\<rparr>)"
  using retry_attempts_exhausted [of "final_request_to_model e t" "classification_of e" e
      "Classify t" "[0..<3]" w 5]
  by (simp add: retry_default_def retry_model_request_def classify_request [OF assms(2)] assms(1)
      classification_of_def retryable_def)

lemma dead_summarize_list:
  assumes "\<And>tr c. model_reply e tr c = None"
  shows "summarize_list e chunks w =
           (replicate (length chunks) NET,
            w\<lparr>trace := trace w @ concat (map (\<lambda>c. failed_attempts (Summarize c) 5 3) chunks)\<rparr>)"
  by (induction chunks arbitrary: w) (simp_all add: dead_summary [OF assms])

lemma dead_long_path:
  assumes "\<And>tr c. model_reply e tr c = None" and "scorer_model_name e = Some m"
  shows "long_path_over e chunks w =
           ((join [10] (replicate (length chunks) NET), normalize_decision e NET),
            w\<lparr>trace := trace w
                  @ concat (map (\<lambda>c. failed_attempts (Summarize c) 5 3) chunks)
                  @ failed_attempts (Summarize (join [10] (replicate (length chunks) NET))) 5 3
                  @ failed_attempts (Classify NET) 5 3\<rparr>)"
  by (simp add: long_path_over_def dead_summarize_list [OF assms(1)] dead_summary [OF assms(1)]
      dead_classify [OF assms])

lemma dead_short_path:
  assumes "\<And>tr c. model_reply e tr c = None" and "scorer_model_name e = Some m"
  shows "process_short_text e t w =
           ((fst (get_summary_from_model e t w), normalize_decision e NET),
            (snd (get_summary_from_model e t w))
              \<lparr>trace := trace (snd (get_summary_from_model e t w))
                         @ failed_attempts (Classify t) 5 3\<rparr>)"
  by (simp add: process_short_text_def case_prod_beta dead_classify [OF assms])

lemma dead_env_dead: "model_reply dead_env tr c = None"
  by (simp add: dead_env_def repo_env_def)

lemma dead_run_summary:
  "retry_default (returning (get_summary_from_model dead_env (U ''abc''))) empty_world =
     (NET, empty_world\<lparr>trace := [Model (Summarize (U ''abc'')), Sleep 5,
                                   Model (Summarize (U ''abc'')), Sleep 5,
                                   Model (Summarize (U ''abc'')), Sleep 5]\<rparr>)"
  by (simp add: dead_summary [of dead_env, OF dead_env_dead] failed_attempts_def empty_world_def
      numeral_3_eq_3)

lemma dead_run_short:
  "process_short_text dead_env (U ''abc'') empty_world =
     (([], NET),
      empty_world\<lparr>trace := [Model (Summarize (U ''abc'')),
                               Model (Classify (U ''abc'')), Sleep 5,
                               Model (Classify (U ''abc'')), Sleep 5,
                               Model (Classify (U ''abc'')), Sleep 5]\<rparr>)"
  by (simp add: scorer_defs const_defs dead_env_def repo_env_def empty_world_def upt_0_3)

lemma dead_run_long:
  "fst (process_long_text dead_env seven_letters None None empty_world) = Inr (NET @ [10] @ NET, NET)"
  by (simp add: scorer_defs const_defs dead_env_def repo_env_def empty_world_def upt_0_3
      seven_letters_def py_range0_def py_slice_def clip_index_def Let_def upt_rec)

section \<open>An accepted tender is neither recorded nor uploaded\<close>

text \<open>
  Claim C1, at the tender of \<open>accept_env\<close>: the title is classified "vozmozhno", the
  specification is downloaded, its text of 35 characters holds three keywords, and with
  the global \<open>model_name\<close> bound final_score returns the decision "da". Processing the
  announcement nevertheless leaves \<open>stage2_success\<close> empty, adds no POST to the trace
  and counts one error: the subscript of \<open>result2\<close> raises TypeError. The same holds for
  the repository as it stands (\<open>model_name\<close> unbound), where in addition the
  classification never reaches the model.
\<close>

theorem C1_accepted_tender_is_not_recorded:
  "fst (request_to_model accept_env_bound (U ''SED'') empty_world) = VOZMOZHNO
   \<and> keyword_count accept_env_bound three_keywords_text = 3
   \<and> length three_keywords_text = 35
   \<and> fst (final_score accept_env_bound ''1234567-1'' downloaded_world)
        = Inr \<lparr>decision = DA, summary = U ''SED''\<rparr>
   \<and> (let r = process_announcement accept_env_bound (new_processor empty_world)
                 ''1234567-1'' sed_entry empty_world
      in folders (snd r) ''1234567-1'' = Some [''7.pdf'']
         \<and> stage2_success (fst (fst r)) = Map.empty
         \<and> filter is_post (trace (snd r)) = []
         \<and> st_errors (fst (fst r)) = 1)
   \<and> (let r = process_announcement accept_env (new_processor empty_world)
                 ''1234567-1'' sed_entry empty_world
      in folders (snd r) ''1234567-1'' = Some [''7.pdf'']
         \<and> stage2_success (fst (fst r)) = Map.empty
         \<and> filter is_post (trace (snd r)) = []
         \<and> st_errors (fst (fst r)) = 1)"
  by (simp add: accept_title accept_keywords accept_final_score accept_run accept_run_bound
      is_post_def)

section \<open>When the checkpoint files are written\<close>




section \<open>The keyword gate\<close>

lemma KEYWORDS_distinct: "distinct KEYWORDS \<and> length KEYWORDS = 12"
  by (simp add: KEYWORDS_def)

text \<open>
  Claim C3. When fewer keywords than the configured threshold occur in the document
  text (matched as substrings after lower-casing both sides), final_score answers with
  the rejection, decision "net" and an empty summary, and the world is returned as it
  was: no summarization, classification or translation request is added to the trace.
\<close>

theorem C3_keyword_gate:
  assumes "get_docx_or_pdf_content_by_announcement_id e announcement_id w = Some text"
      and "int (keyword_count e text) < keyword_threshold e"
  shows "final_score e announcement_id w = (Inr \<lparr>decision = NET, summary = []\<rparr>, w)
         \<and> new_events w (snd (final_score e announcement_id w)) = []"
  using assms
  by (simp add: final_score_def final_score_body_def has_enough_keywords_def or_default_def
      new_events_def)

lemma one_keyword_count: "keyword_count one_keyword_env [1057, 1069, 1044] = 1"
  by (simp add: keyword_count_def one_keyword_env_def repo_env_def KEYWORDS_def lower_cp_def
      startswith_def)

theorem C3_keyword_gate_witness:
  "keyword_count one_keyword_env [1057, 1069, 1044] = 1
   \<and> keyword_threshold one_keyword_env = 2
   \<and> final_score one_keyword_env ''1234567-1'' one_file_world
       = (Inr \<lparr>decision = NET, summary = []\<rparr>, one_file_world)
   \<and> new_events one_file_world (snd (final_score one_keyword_env ''1234567-1'' one_file_world)) = []"
proof -
  have doc: "get_docx_or_pdf_content_by_announcement_id one_keyword_env ''1234567-1'' one_file_world
               = Some [1057, 1069, 1044]"
    by (simp add: get_docx_or_pdf_content_by_announcement_id_def one_keyword_env_def
        one_file_world_def empty_world_def repo_env_def)
  have thr: "keyword_threshold one_keyword_env = 2"
    by (simp add: one_keyword_env_def repo_env_def)
  have few: "int (keyword_count one_keyword_env [1057, 1069, 1044]) < keyword_threshold one_keyword_env"
    by (simp add: one_keyword_count thr)
  show ?thesis
    using C3_keyword_gate [OF doc few] one_keyword_count thr by (simp add: new_events_def)
qed

section \<open>Chunking of a long text\<close>

text \<open>
  Claim C4. For a positive chunk size, a non-negative maximum and a text longer than
  the chunk size, the long path is the long path over the chunks \<open>chunks_of\<close>: their
  number is the minimum of the rounded-up quotient of length and chunk size and of the
  maximum; chunk \<open>i\<close> is the slice of \<open>chunk_size\<close> characters from position
  \<open>i * chunk_size\<close>; together they are exactly the first \<open>number * chunk_size\<close>
  characters of the text; each gets one summary; and the only texts the long path sends
  for summarization are these chunks and the joined chunk summaries.
\<close>

theorem C4_long_path_chunks:
  assumes "0 < chunk_size e" and "0 \<le> max_chunks e" and "chunk_size e < int (length text)"
  shows "process_long_text e text None None w =
           (case long_path_over e (chunks_of text (chunk_size e) (max_chunks e)) w of
              (r, w') \<Rightarrow> (Inr r, w'))
       \<and> length (chunks_of text (chunk_size e) (max_chunks e)) =
           min (nat ((int (length text) + chunk_size e - 1) div chunk_size e)) (nat (max_chunks e))
       \<and> (\<forall>k. ((int (length text) + chunk_size e - 1) div chunk_size e \<le> k)
               = (int (length text) \<le> k * chunk_size e))
       \<and> (\<forall>i<length (chunks_of text (chunk_size e) (max_chunks e)).
             chunks_of text (chunk_size e) (max_chunks e) ! i =
               take (nat (chunk_size e)) (drop (i * nat (chunk_size e)) text))
       \<and> concat (chunks_of text (chunk_size e) (max_chunks e)) =
           take (length (chunks_of text (chunk_size e) (max_chunks e)) * nat (chunk_size e)) text
       \<and> length (fst (summarize_list e (chunks_of text (chunk_size e) (max_chunks e)) w)) =
           length (chunks_of text (chunk_size e) (max_chunks e))
       \<and> extends (long_path_event (chunks_of text (chunk_size e) (max_chunks e))
                  (join [10] (fst (summarize_list e (chunks_of text (chunk_size e) (max_chunks e)) w))))
           w (snd (process_long_text e text None None w))"
proof -
  let ?chunks = "chunks_of text (chunk_size e) (max_chunks e)"
  have a: "process_long_text e text None None w =
           (case long_path_over e ?chunks w of (r, w') \<Rightarrow> (Inr r, w'))"
    by (rule process_long_text_chunks [OF assms])
  have b: "length ?chunks =
           min (nat ((int (length text) + chunk_size e - 1) div chunk_size e)) (nat (max_chunks e))"
    by (simp add: chunks_of_def chunk_count_def)
  have c: "\<forall>k. ((int (length text) + chunk_size e - 1) div chunk_size e \<le> k)
               = (int (length text) \<le> k * chunk_size e)"
    using ceil_div_least [OF assms(1)] by blast
  have d: "\<forall>i<length ?chunks. ?chunks ! i = take (nat (chunk_size e)) (drop (i * nat (chunk_size e)) text)"
    using chunks_of_nth by blast
  have f: "concat ?chunks = take (length ?chunks * nat (chunk_size e)) text"
    using concat_chunks [OF assms(1), of "text"] by (simp add: chunks_of_def)
  have g: "length (fst (summarize_list e ?chunks w)) = length ?chunks"
    by (rule summarize_list_length)
  have full: "fst (fst (long_path_over e ?chunks w)) = join [10] (fst (summarize_list e ?chunks w))"
    by (simp add: long_path_over_def case_prod_beta)
  have h: "extends (long_path_event ?chunks (join [10] (fst (summarize_list e ?chunks w))))
           w (snd (process_long_text e text None None w))"
    using long_path_over_extends [of ?chunks e w] by (simp add: a full case_prod_beta)
  show ?thesis
    using a b c d f g h by blast
qed

text \<open>
  The claim for seven letters in chunks of three with a maximum of two: the chunks are
  "abc" and "def", and the seventh letter is never summarized.
\<close>

theorem C4_long_path_chunks_witness:
  "chunks_of seven_letters (chunk_size tiny_env) (max_chunks tiny_env) = [U ''abc'', U ''def'']
   \<and> process_long_text tiny_env seven_letters None None empty_world =
       (case long_path_over tiny_env [U ''abc'', U ''def''] empty_world of (r, w') \<Rightarrow> (Inr r, w'))
   \<and> process_long_text tiny_env seven_letters None None empty_world =
       (Inr (U ''SED'' @ [10] @ U ''SED'', NET),
        empty_world\<lparr>trace := [Model (Summarize (U ''abc'')), Model (Summarize (U ''def'')),
                                 Model (Summarize (U ''SED'' @ [10] @ U ''SED'')),
                                 Sleep 5, Sleep 5, Sleep 5]\<rparr>)"
proof -
  have h1: "0 < chunk_size tiny_env" and h2: "0 \<le> max_chunks tiny_env"
    and h3: "chunk_size tiny_env < int (length seven_letters)"
    by (simp_all add: tiny_env_def repo_env_def seven_letters_def U_def)
  have chunks: "chunks_of seven_letters (chunk_size tiny_env) (max_chunks tiny_env)
                  = [U ''abc'', U ''def'']"
    by (simp add: chunks_of_def chunk_count_def chunk_def tiny_env_def repo_env_def
        seven_letters_def U_def upt_rec)
  show ?thesis
    using C4_long_path_chunks [OF h1 h2 h3, of empty_world] chunks tiny_run
    by simp
qed

section \<open>The retry wrapper around model calls\<close>

text \<open>
  Claim C5 as stated fails. With the model out of service (and \<open>model_name\<close> bound), a
  chunk summarization that uses up its three attempts yields "net", not an empty
  summary, so the summary of the long path is "net", a newline, "net"; and on the short
  path the summarization is requested once, outside the retry wrapper, while the
  classification is attempted three times.
\<close>

theorem C5_exhausted_summary_is_net:
  "retry_default (returning (get_summary_from_model dead_env (U ''abc''))) empty_world =
     (NET, empty_world\<lparr>trace := [Model (Summarize (U ''abc'')), Sleep 5,
                                   Model (Summarize (U ''abc'')), Sleep 5,
                                   Model (Summarize (U ''abc'')), Sleep 5]\<rparr>)
   \<and> fst (process_long_text dead_env seven_letters None None empty_world)
       = Inr (NET @ [10] @ NET, NET)
   \<and> process_short_text dead_env (U ''abc'') empty_world =
     (([], NET),
      empty_world\<lparr>trace := [Model (Summarize (U ''abc'')),
                               Model (Classify (U ''abc'')), Sleep 5,
                               Model (Classify (U ''abc'')), Sleep 5,
                               Model (Classify (U ''abc'')), Sleep 5]\<rparr>)"
  using dead_run_summary dead_run_long dead_run_short by blast

text \<open>
  Claim C5, amended. A summarization or a deep-analysis classification that goes through
  the retry wrapper is attempted at most three times, each failed attempt (an exception
  or an empty result) followed by 5 seconds: when the first \<open>k < 3\<close> attempts fail and
  the next gives a non-empty result, that result is returned after \<open>k\<close> pauses; when
  all three fail the wrapper returns "net", for a summarization as for a
  classification. It never returns an empty string. With \<open>model_name\<close> unbound the
  classification fails three times without a request. On the long path every chunk
  summarization, the combined summarization and the classification go through the
  wrapper, and on the short path the classification does: with the model out of
  service each of them is attempted three times and yields "net". final_score never
  raises.
\<close>

theorem C5_bounded_retry:
  "((\<forall>j<3. retryable (summary_of
              (model_reply e (trace w @ failed_attempts (Summarize t) 5 j) (Summarize t))))
      \<longrightarrow> retry_default (returning (get_summary_from_model e t)) w =
            (NET, w\<lparr>trace := trace w @ failed_attempts (Summarize t) 5 3\<rparr>))
   \<and> (k < 3
       \<and> (\<forall>j<k. retryable (summary_of
              (model_reply e (trace w @ failed_attempts (Summarize t) 5 j) (Summarize t))))
       \<and> summary_of (model_reply e (trace w @ failed_attempts (Summarize t) 5 k) (Summarize t)) = Inr v
       \<and> v \<noteq> []
      \<longrightarrow> retry_default (returning (get_summary_from_model e t)) w =
            (v, w\<lparr>trace := trace w @ failed_attempts (Summarize t) 5 k @ [Model (Summarize t)]\<rparr>))
   \<and> (scorer_model_name e = Some m
       \<and> (\<forall>j<3. retryable (classification_of e
              (model_reply e (trace w @ failed_attempts (Classify t) 5 j) (Classify t))))
      \<longrightarrow> retry_default (final_request_to_model e t) w =
            (NET, w\<lparr>trace := trace w @ failed_attempts (Classify t) 5 3\<rparr>))
   \<and> (scorer_model_name e = Some m \<and> k < 3
       \<and> (\<forall>j<k. retryable (classification_of e
              (model_reply e (trace w @ failed_attempts (Classify t) 5 j) (Classify t))))
       \<and> classification_of e
            (model_reply e (trace w @ failed_attempts (Classify t) 5 k) (Classify t)) = Inr v
       \<and> v \<noteq> []
      \<longrightarrow> retry_default (final_request_to_model e t) w =
            (v, w\<lparr>trace := trace w @ failed_attempts (Classify t) 5 k @ [Model (Classify t)]\<rparr>))
   \<and> (scorer_model_name e = None
      \<longrightarrow> retry_default (final_request_to_model e t) w =
            (NET, w\<lparr>trace := trace w @ [Sleep 5, Sleep 5, Sleep 5]\<rparr>))
   \<and> fst (retry_default func w) \<noteq> []
   \<and> ((\<forall>tr c. model_reply e tr c = None) \<and> scorer_model_name e = Some m
       \<and> 0 < chunk_size e \<and> 0 \<le> max_chunks e \<and> chunk_size e < int (length doc_text)
      \<longrightarrow> process_long_text e doc_text None None w =
            (Inr (join [10] (replicate (length (chunks_of doc_text (chunk_size e) (max_chunks e))) NET),
                  normalize_decision e NET),
             w\<lparr>trace := trace w
                @ concat (map (\<lambda>c. failed_attempts (Summarize c) 5 3)
                            (chunks_of doc_text (chunk_size e) (max_chunks e)))
                @ failed_attempts (Summarize (join [10]
                     (replicate (length (chunks_of doc_text (chunk_size e) (max_chunks e))) NET))) 5 3
                @ failed_attempts (Classify NET) 5 3\<rparr>))
   \<and> ((\<forall>tr c. model_reply e tr c = None) \<and> scorer_model_name e = Some m
      \<longrightarrow> process_short_text e t w =
            ((fst (get_summary_from_model e t w), normalize_decision e NET),
             (snd (get_summary_from_model e t w))
               \<lparr>trace := trace (snd (get_summary_from_model e t w))
                          @ failed_attempts (Classify t) 5 3\<rparr>))
   \<and> (\<exists>r. fst (final_score e a w) = Inr r)"
proof -
  have s_exh: "(\<forall>j<3. retryable (summary_of
              (model_reply e (trace w @ failed_attempts (Summarize t) 5 j) (Summarize t))))
      \<longrightarrow> retry_default (returning (get_summary_from_model e t)) w =
            (NET, w\<lparr>trace := trace w @ failed_attempts (Summarize t) 5 3\<rparr>)"
    using retry_attempts_exhausted [of "returning (get_summary_from_model e t)" summary_of e
        "Summarize t" "[0..<3]" w 5]
    by (simp add: retry_default_def retry_model_request_def summary_request)
  have s_ok: "k < 3
       \<and> (\<forall>j<k. retryable (summary_of
              (model_reply e (trace w @ failed_attempts (Summarize t) 5 j) (Summarize t))))
       \<and> summary_of (model_reply e (trace w @ failed_attempts (Summarize t) 5 k) (Summarize t)) = Inr v
       \<and> v \<noteq> []
      \<longrightarrow> retry_default (returning (get_summary_from_model e t)) w =
            (v, w\<lparr>trace := trace w @ failed_attempts (Summarize t) 5 k @ [Model (Summarize t)]\<rparr>)"
    using retry_attempts_succeeds [of "returning (get_summary_from_model e t)" summary_of e
        "Summarize t" k w 5 v "[0..<3]"]
    by (simp add: retry_default_def retry_model_request_def summary_request)
  have c_exh: "scorer_model_name e = Some m
       \<and> (\<forall>j<3. retryable (classification_of e
              (model_reply e (trace w @ failed_attempts (Classify t) 5 j) (Classify t))))
      \<longrightarrow> retry_default (final_request_to_model e t) w =
            (NET, w\<lparr>trace := trace w @ failed_attempts (Classify t) 5 3\<rparr>)"
    using retry_attempts_exhausted [of "final_request_to_model e t" "classification_of e" e
        "Classify t" "[0..<3]" w 5]
    by (auto simp: retry_default_def retry_model_request_def classify_request)
  have c_ok: "scorer_model_name e = Some m \<and> k < 3
       \<and> (\<forall>j<k. retryable (classification_of e
              (model_reply e (trace w @ failed_attempts (Classify t) 5 j) (Classify t))))
       \<and> classification_of e
            (model_reply e (trace w @ failed_attempts (Classify t) 5 k) (Classify t)) = Inr v
       \<and> v \<noteq> []
      \<longrightarrow> retry_default (final_request_to_model e t) w =
            (v, w\<lparr>trace := trace w @ failed_attempts (Classify t) 5 k @ [Model (Classify t)]\<rparr>)"
    using retry_attempts_succeeds [of "final_request_to_model e t" "classification_of e" e
        "Classify t" k w 5 v "[0..<3]"]
    by (auto simp: retry_default_def retry_model_request_def classify_request)
  have unbound: "scorer_model_name e = None
      \<longrightarrow> retry_default (final_request_to_model e t) w =
            (NET, w\<lparr>trace := trace w @ [Sleep 5, Sleep 5, Sleep 5]\<rparr>)"
    by (simp add: retry_unbound)
  have long: "(\<forall>tr c. model_reply e tr c = None) \<and> scorer_model_name e = Some m
       \<and> 0 < chunk_size e \<and> 0 \<le> max_chunks e \<and> chunk_size e < int (length doc_text)
      \<longrightarrow> process_long_text e doc_text None None w =
            (Inr (join [10] (replicate (length (chunks_of doc_text (chunk_size e) (max_chunks e))) NET),
                  normalize_decision e NET),
             w\<lparr>trace := trace w
                @ concat (map (\<lambda>c. failed_attempts (Summarize c) 5 3)
                            (chunks_of doc_text (chunk_size e) (max_chunks e)))
                @ failed_attempts (Summarize (join [10]
                     (replicate (length (chunks_of doc_text (chunk_size e) (max_chunks e))) NET))) 5 3
                @ failed_attempts (Classify NET) 5 3\<rparr>)"
    by (simp add: process_long_text_chunks dead_long_path)
  have short: "(\<forall>tr c. model_reply e tr c = None) \<and> scorer_model_name e = Some m
      \<longrightarrow> process_short_text e t w =
            ((fst (get_summary_from_model e t w), normalize_decision e NET),
             (snd (get_summary_from_model e t w))
               \<lparr>trace := trace (snd (get_summary_from_model e t w))
                          @ failed_attempts (Classify t) 5 3\<rparr>)"
    using dead_short_path [of e m t w] by blast
  show ?thesis
    using s_exh s_ok c_exh c_ok unbound retry_default_nonempty [of func w] long short
      final_score_returns [of e a w]
    by blast
qed

text \<open>
  The amended claim with the model out of service, and with a model that fails twice
  and then answers.
\<close>

theorem C5_bounded_retry_witness:
  "retry_default (returning (get_summary_from_model dead_env (U ''abc''))) empty_world =
     (NET, empty_world\<lparr>trace := trace empty_world @ failed_attempts (Summarize (U ''abc'')) 5 3\<rparr>)
   \<and> retry_default (returning (get_summary_from_model flaky_env (U ''abc''))) empty_world =
     (U ''SED'', empty_world\<lparr>trace := trace empty_world
         @ failed_attempts (Summarize (U ''abc'')) 5 2 @ [Model (Summarize (U ''abc''))]\<rparr>)"
proof -
  have dead: "\<forall>j<3. retryable (summary_of (model_reply dead_env
      (trace empty_world @ failed_attempts (Summarize (U ''abc'')) 5 j) (Summarize (U ''abc''))))"
    by (simp add: dead_env_dead summary_of_def retryable_def)
  have two: "(2::nat) < 3" by simp
  have flaky_bad: "\<forall>j<2. retryable (summary_of (model_reply flaky_env
      (trace empty_world @ failed_attempts (Summarize (U ''abc'')) 5 j) (Summarize (U ''abc''))))"
    by (auto simp: flaky_env_def repo_env_def empty_world_def failed_attempts_def summary_of_def
        retryable_def less_Suc_eq numeral_2_eq_2)
  have flaky_good: "summary_of (model_reply flaky_env
      (trace empty_world @ failed_attempts (Summarize (U ''abc'')) 5 2) (Summarize (U ''abc'')))
        = Inr (U ''SED'')"
    by (simp add: flaky_env_def repo_env_def empty_world_def failed_attempts_def summary_of_def
        numeral_2_eq_2 strip_def isspace_def U_def)
  have ne: "U ''SED'' \<noteq> []" by (simp add: U_def)
  show ?thesis
    using C5_bounded_retry [of dead_env empty_world "U ''abc''" 0 "[]" "U ''llama3''"
        "returning (get_summary_from_model dead_env (U ''abc''))" "[]" "[]"]
      C5_bounded_retry [of flaky_env empty_world "U ''abc''" 2 "U ''SED''" "[]"
        "returning (get_summary_from_model flaky_env (U ''abc''))" "[]" "[]"]
      dead two flaky_bad flaky_good ne
    by blast
qed

section \<open>A failed translation\<close>

text \<open>
  Claim C6 as stated fails: when the translation request fails, final_score does not
  raise but returns the rejection. First with \<open>model_name\<close> bound and a model that
  answers everything but the translation (the classification was "da", the translation
  is requested once); then in the repository as it stands, where building the
  translation request raises NameError.
\<close>

theorem C6_translation_failure_is_caught:
  "fst (get_translate_of_summary no_translation_env (U ''SED'') downloaded_world)
     = Inl RequestException
   \<and> final_score no_translation_env ''1234567-1'' downloaded_world =
       (Inr \<lparr>decision = NET, summary = []\<rparr>,
        downloaded_world\<lparr>trace := [Model (Summarize three_keywords_text),
                                    Model (Classify three_keywords_text),
                                    Model (Translate (U ''SED''))]\<rparr>)
   \<and> fst (get_translate_of_summary accept_env (U ''SED'') downloaded_world) = Inl NameError
   \<and> final_score accept_env ''1234567-1'' downloaded_world =
       (Inr \<lparr>decision = NET, summary = []\<rparr>,
        downloaded_world\<lparr>trace := [Model (Summarize three_keywords_text),
                                    Sleep 5, Sleep 5, Sleep 5]\<rparr>)"
  by (simp add: no_translation_run repo_translation_run)
    (simp add: scorer_defs accept_defs no_translation_env_def no_translation_model_def)

text \<open>
  Claim C6, amended. The translation is not retried: get_translate_of_summary adds at
  most one request to the trace (none when \<open>model_name\<close> is unbound). final_score never
  raises; when the text passed the keyword gate, the deep analysis returned and the
  translation then fails, final_score returns the rejection, decision "net" with an
  empty summary, whatever the decision of the analysis was.
\<close>

theorem C6_translation_not_retried_and_caught:
  assumes "get_docx_or_pdf_content_by_announcement_id e a w = Some t"
      and "t \<noteq> []" and "has_enough_keywords e t None"
      and "deep_analysis e t w = (Inr (summ, dec), w1)"
      and "get_translate_of_summary e summ w1 = (Inl ex, w2)"
  shows "new_events w1 w2 = (if scorer_model_name e = None then [] else [Model (Translate summ)])
       \<and> final_score e a w = (Inr \<lparr>decision = NET, summary = []\<rparr>, w2)
       \<and> (\<exists>r. fst (final_score e a' w') = Inr r)"
  using translate_events [of w1 e summ] final_score_translation_failure [OF assms]
    final_score_returns [of e a' w'] assms(5)
  by simp

theorem C6_translation_not_retried_and_caught_witness:
  "new_events (downloaded_world\<lparr>trace := [Model (Summarize three_keywords_text),
                                          Model (Classify three_keywords_text)]\<rparr>)
     (downloaded_world\<lparr>trace := [Model (Summarize three_keywords_text),
                                 Model (Classify three_keywords_text),
                                 Model (Translate (U ''SED''))]\<rparr>)
     = [Model (Translate (U ''SED''))]
   \<and> final_score no_translation_env ''1234567-1'' downloaded_world =
       (Inr \<lparr>decision = NET, summary = []\<rparr>,
        downloaded_world\<lparr>trace := [Model (Summarize three_keywords_text),
                                    Model (Classify three_keywords_text),
                                    Model (Translate (U ''SED''))]\<rparr>)"
proof -
  let ?w1 = "downloaded_world\<lparr>trace := [Model (Summarize three_keywords_text),
                                         Model (Classify three_keywords_text)]\<rparr>"
  let ?w2 = "downloaded_world\<lparr>trace := [Model (Summarize three_keywords_text),
                                         Model (Classify three_keywords_text),
                                         Model (Translate (U ''SED''))]\<rparr>"
  have doc: "get_docx_or_pdf_content_by_announcement_id no_translation_env ''1234567-1''
               downloaded_world = Some three_keywords_text"
    by (simp add: scorer_defs accept_defs downloaded_world_def no_translation_env_def)
  have ne: "three_keywords_text \<noteq> []"
    by (simp add: three_keywords_text_def)
  have kw: "has_enough_keywords no_translation_env three_keywords_text None"
    by (simp add: scorer_defs const_defs accept_defs no_translation_env_def)
  have deep: "deep_analysis no_translation_env three_keywords_text downloaded_world
                = (Inr (U ''SED'', DA), ?w1)"
    by (simp add: scorer_defs const_defs accept_defs downloaded_world_def upt_0_3
        no_translation_env_def no_translation_model_def)
  have tr: "get_translate_of_summary no_translation_env (U ''SED'') ?w1 = (Inl RequestException, ?w2)"
    by (simp add: scorer_defs accept_defs downloaded_world_def no_translation_env_def
        no_translation_model_def)
  have bound: "scorer_model_name no_translation_env \<noteq> None"
    by (simp add: accept_defs no_translation_env_def)
  show ?thesis
    using C6_translation_not_retried_and_caught [OF doc ne kw deep tr] bound
    by simp
qed

section \<open>Rate limiting in the retry client\<close>




section \<open>A file whose name is already taken\<close>




section \<open>Validation before the upload\<close>

text \<open>
  Claim C9. When the organizer id is not twelve digits, or one of the required fields
  (company name, id, message, file, checksum) is empty, or the checksum is not 32
  characters long, upload returns \<open>None\<close> and leaves the world as it was: no POST is
  added to the trace.
\<close>

theorem C9_upload_validation:
  assumes "isdigit e bin = False \<or> length bin \<noteq> 12
           \<or> company_name = [] \<or> bin = [] \<or> message = [] \<or> file = [] \<or> md5sum = []
           \<or> length md5sum \<noteq> 32"
  shows "upload e company_name bin message file md5sum kratkij_ii_analiz_ts w = (None, w)
         \<and> new_events w (snd (upload e company_name bin message file md5sum kratkij_ii_analiz_ts w)) = []"
  using assms
  by (auto simp: upload_def validate_input_data_def new_events_def)

theorem C9_upload_validation_witness:
  "isdigit repo_env (U ''12345678901'') \<and> length (U ''12345678901'') = 11
   \<and> upload repo_env (U ''TOO Romashka'') (U ''12345678901'') (U ''Nazvanie: SED'') (U ''UEsDBA=='')
        (U ''0123456789abcdef0123456789abcdef'') [] empty_world = (None, empty_world)
   \<and> new_events empty_world (snd (upload repo_env (U ''TOO Romashka'') (U ''12345678901'') (U ''Nazvanie: SED'')
        (U ''UEsDBA=='') (U ''0123456789abcdef0123456789abcdef'') [] empty_world)) = []"
proof -
  have len: "length (U ''12345678901'') \<noteq> 12"
    by (simp add: U_def)
  have dig: "isdigit repo_env (U ''12345678901'')"
    by (simp add: isdigit_def repo_env_def U_def)
  show ?thesis
    using C9_upload_validation [of repo_env "U ''12345678901''" "U ''TOO Romashka''"
        "U ''Nazvanie: SED''" "U ''UEsDBA==''" "U ''0123456789abcdef0123456789abcdef''" "[]" empty_world]
      len dig
    by (simp add: U_def new_events_def)
qed

section \<open>The identifier used for URLs and for the folder\<close>



end
